theory Spec2Isabelle
  imports Main "HOL-Library.Word"
begin

unbundle bit_operations_syntax

section \<open>Data model\<close>

text \<open>
  Go strings are byte sequences; \<^typ>\<open>string\<close> is a list of 8-bit characters, so
  \<open>=\<close> on strings is Go's \<open>==\<close>. A Go \<open>error\<close> is represented by its rendered
  message. A Go map is a partial function; a \<open>nil\<close> map is \<open>None\<close> where the code
  tests for it.
\<close>

type_synonym error = string
type_synonym Labels = "string \<rightharpoonup> string"

text \<open>\<open>corev1.ObjectReference\<close>, the involved object of an event.\<close>

record ObjectReference =
  obj_Kind :: string
  obj_Namespace :: string
  obj_Name :: string
  obj_UID :: string
  obj_APIVersion :: string
  obj_ResourceVersion :: string

record GroupVersionKind =
  Group :: string
  Version :: string
  gvk_Kind :: string

text \<open>\<open>eventv1.Event\<close> (the timestamp plays no part in the functions below).\<close>

record Event =
  InvolvedObject :: ObjectReference
  Severity :: string
  Message :: string
  Reason :: string
  Metadata :: "(string \<rightharpoonup> string) option"
  ReportingController :: string
  ReportingInstance :: string

record CrossNamespaceObjectReference =
  src_Kind :: string
  src_Name :: string
  src_Namespace :: string
  MatchLabels :: "Labels option"

record AlertSpec =
  ProviderRef :: string
  EventSeverity :: string
  EventSources :: "CrossNamespaceObjectReference list"
  ExclusionList :: "string list"
  Summary :: string
  Suspend :: bool

record Alert =
  alert_Name :: string
  alert_Namespace :: string
  Spec :: AlertSpec

text \<open>
  \<open>Provider\<close> (provider_types.go). A \<open>nil\<close> secret reference or timeout is \<open>None\<close>;
  the timeout is a \<open>time.Duration\<close>, a number of nanoseconds.
\<close>

record ProviderSpec =
  Type :: string
  Channel :: string
  Username :: string
  Address :: string
  Timeout :: "int option"
  Proxy :: string
  SecretRef :: "string option"
  CertSecretRef :: "string option"
  prov_Suspend :: bool

record Provider =
  prov_Name :: string
  prov_Namespace :: string
  prov_UID :: string
  prov_Spec :: ProviderSpec

text \<open>
  The arguments of \<open>notifier.NewFactory\<close>, in the order of the call in
  \<open>createNotifier\<close>. A certificate pool is represented by the PEM data it was filled
  from. A notifier (\<open>notifier.Interface\<close>) is represented by the provider type and the
  configuration it was built for.
\<close>

record Factory =
  f_webhook :: string
  f_proxy :: string
  f_username :: string
  f_channel :: string
  f_token :: string
  f_headers :: "string \<rightharpoonup> string"
  f_certPool :: "string option"
  f_password :: string
  f_providerUID :: string

datatype Interface = Sender string Factory

text \<open>
  What \<open>dispatchNotification\<close> hands to the goroutine it starts: the sender, the
  notification, the token to mask and the timeout of the delivery.
\<close>

record Delivery =
  d_Sender :: Interface
  d_Notification :: Event
  d_Token :: string
  d_Timeout :: int

text \<open>One call of \<open>s.logger.Error(err, msg, ...)\<close> or \<open>s.logger.Info(msg, ...)\<close>.\<close>

datatype LogEntry = LogError error string | LogInfo string

text \<open>
  The only run-time panic the matcher can raise: \<open>sel.Matches\<close> is called on the
  selector returned by \<open>LabelSelectorAsSelector\<close> also when that call returned an error
  (and with it a nil selector).
\<close>

datatype panic = NilPointerDereference

text \<open>
  The collaborators of the event server that are not part of the repository: the object
  store behind \<open>s.kubeClient\<close> and the library functions the handlers call. A compiled
  regular expression is represented by its \<open>Match\<close> method, a label selector by its
  \<open>Matches\<close> method. The store is read as a snapshot: the same query gives the same
  answer during one request. \<open>mapRange m\<close> is the order in which a \<open>range\<close> loop
  visits the keys of the map \<open>m\<close>, which the Go run time chooses.
  \<open>strings_EqualFold\<close> is \<open>strings.EqualFold\<close>. \<open>url_Parse\<close> gives
  the error of \<open>url.Parse\<close>, if any; \<open>yaml_Unmarshal\<close> decodes the \<open>headers\<close> key
  of a secret; \<open>AppendCertsFromPEM\<close> tells whether a certificate was found in the PEM
  data; \<open>factory_Notifier\<close> is \<open>Factory.Notifier\<close> of the notifier package.
\<close>

record EventServer =
  noCrossNamespaceRefs :: bool
  kubeListAlerts :: "error + Alert list"
  kubeGetObjectLabels :: "GroupVersionKind \<Rightarrow> string \<Rightarrow> string \<Rightarrow> error + Labels"
  kubeGetProvider :: "string \<Rightarrow> string \<Rightarrow> error + Provider"
  kubeGetSecret :: "string \<Rightarrow> string \<Rightarrow> error + (string \<rightharpoonup> string)"
  mapRange :: "(string \<rightharpoonup> string) \<Rightarrow> string list"
  json_Unmarshal :: "string \<Rightarrow> error + Event"
  strings_EqualFold :: "string \<Rightarrow> string \<Rightarrow> bool"
  regexp_Compile :: "string \<Rightarrow> error + (string \<Rightarrow> bool)"
  LabelSelectorAsSelector :: "Labels \<Rightarrow> error + (Labels \<Rightarrow> bool)"
  url_Parse :: "string \<Rightarrow> error option"
  yaml_Unmarshal :: "string \<Rightarrow> error + (string \<rightharpoonup> string)"
  AppendCertsFromPEM :: "string \<Rightarrow> bool"
  factory_Notifier :: "Factory \<Rightarrow> string \<Rightarrow> error + Interface"

section \<open>The event-to-alert matcher\<close>

definition EventSeverityInfo :: string where
  "EventSeverityInfo = ''info''"

text \<open>
  \<open>schema.FromAPIVersionAndKind\<close> of apimachinery, which
  \<open>event.InvolvedObject.GroupVersionKind()\<close> calls: an API version with no slash is a
  version of the core group, one slash separates group and version, and a string with
  more slashes does not parse and leaves group and version empty.
\<close>

definition ParseGroupVersion :: "string \<Rightarrow> (string \<times> string) option" where
  "ParseGroupVersion gv =
     (if length gv = 0 \<or> gv = ''/'' then Some ([], [])
      else if count_list gv (CHR ''/'') = 0 then Some ([], gv)
      else if count_list gv (CHR ''/'') = 1
        then Some (takeWhile (\<lambda>c. c \<noteq> CHR ''/'') gv, tl (dropWhile (\<lambda>c. c \<noteq> CHR ''/'') gv))
      else None)"

definition FromAPIVersionAndKind :: "string \<Rightarrow> string \<Rightarrow> GroupVersionKind" where
  "FromAPIVersionAndKind apiVersion kind =
     (case ParseGroupVersion apiVersion of
        Some (g, v) \<Rightarrow> \<lparr>Group = g, Version = v, gvk_Kind = kind\<rparr>
      | None \<Rightarrow> \<lparr>Group = [], Version = [], gvk_Kind = kind\<rparr>)"

definition GetGroupVersionKind :: "ObjectReference \<Rightarrow> GroupVersionKind" where
  "GetGroupVersionKind obj = FromAPIVersionAndKind (obj_APIVersion obj) (obj_Kind obj)"

text \<open>Prefixing the log of a later step with the log of an earlier one.\<close>

definition after_logs :: "LogEntry list \<Rightarrow> LogEntry list \<times> 'a \<Rightarrow> LogEntry list \<times> 'a" where
  "after_logs l r = (l @ fst r, snd r)"

text \<open>
  \<open>eventMatchesAlert\<close>: namespace and kind, then severity, then name, then labels. A
  failed read of the object is logged and leaves the object without labels; a failed
  selector construction is logged and leaves the selector nil.
\<close>

definition eventMatchesAlert ::
  "EventServer \<Rightarrow> Event \<Rightarrow> CrossNamespaceObjectReference \<Rightarrow> string
     \<Rightarrow> LogEntry list \<times> (panic + bool)" where
  "eventMatchesAlert s event source severity =
     (if obj_Namespace (InvolvedObject event) \<noteq> src_Namespace source \<or>
         obj_Kind (InvolvedObject event) \<noteq> src_Kind source
      then ([], Inr False)
      else if Severity event \<noteq> severity \<and> severity \<noteq> EventSeverityInfo
      then ([], Inr False)
      else if src_Name source \<noteq> ''*'' \<and> src_Name source \<noteq> obj_Name (InvolvedObject event)
      then ([], Inr False)
      else case MatchLabels source of
        None \<Rightarrow> ([], Inr True)
      | Some matchLabels \<Rightarrow>
          (let got = kubeGetObjectLabels s (GetGroupVersionKind (InvolvedObject event))
                       (obj_Namespace (InvolvedObject event)) (obj_Name (InvolvedObject event));
               log1 = (case got of
                         Inl err \<Rightarrow> [LogError err ''error getting object'']
                       | Inr _ \<Rightarrow> []);
               objLabels = (case got of Inl _ \<Rightarrow> Map.empty | Inr ls \<Rightarrow> ls);
               made = LabelSelectorAsSelector s matchLabels;
               log2 = (case made of
                         Inl err \<Rightarrow> [LogError err
                           (''error using matchLabels from event source '' @ [CHR 0x27]
                              @ src_Name source @ [CHR 0x27])]
                       | Inr _ \<Rightarrow> [])
           in (log1 @ log2,
               case made of
                 Inl _ \<Rightarrow> Inl NilPointerDereference
               | Inr sel \<Rightarrow> Inr (sel objLabels))))"

text \<open>
  \<open>eventMatchesAlertSources\<close>: the first matching source decides; an empty source
  namespace defaults to the alert's.
\<close>

fun eventMatchesAlertSources_loop ::
  "EventServer \<Rightarrow> Event \<Rightarrow> Alert \<Rightarrow> CrossNamespaceObjectReference list
     \<Rightarrow> LogEntry list \<times> (panic + bool)" where
  "eventMatchesAlertSources_loop s event alert [] = ([], Inr False)"
| "eventMatchesAlertSources_loop s event alert (source # rest) =
     (let source' = (if src_Namespace source = ''''
                     then source\<lparr>src_Namespace := alert_Namespace alert\<rparr> else source);
          r = eventMatchesAlert s event source' (EventSeverity (Spec alert))
      in case snd r of
           Inl p \<Rightarrow> r
         | Inr True \<Rightarrow> r
         | Inr False \<Rightarrow> after_logs (fst r) (eventMatchesAlertSources_loop s event alert rest))"

definition eventMatchesAlertSources ::
  "EventServer \<Rightarrow> Event \<Rightarrow> Alert \<Rightarrow> LogEntry list \<times> (panic + bool)" where
  "eventMatchesAlertSources s event alert =
     eventMatchesAlertSources_loop s event alert (EventSources (Spec alert))"

text \<open>
  \<open>messageIsExcluded\<close>: the first entry that compiles and matches returns true at once;
  an entry that does not compile is logged and the loop goes on.
\<close>

fun messageIsExcluded_loop ::
  "EventServer \<Rightarrow> string \<Rightarrow> string list \<Rightarrow> LogEntry list \<times> bool" where
  "messageIsExcluded_loop s msg [] = ([], False)"
| "messageIsExcluded_loop s msg (exp # rest) =
     (case regexp_Compile s exp of
        Inr r \<Rightarrow> if r msg then ([], True) else messageIsExcluded_loop s msg rest
      | Inl err \<Rightarrow>
          after_logs [LogError err (''failed to compile regex: '' @ exp)]
            (messageIsExcluded_loop s msg rest))"

definition messageIsExcluded ::
  "EventServer \<Rightarrow> string \<Rightarrow> string list \<Rightarrow> LogEntry list \<times> bool" where
  "messageIsExcluded s msg exclusionList =
     (if length exclusionList = 0 then ([], False)
      else messageIsExcluded_loop s msg exclusionList)"

text \<open>
  \<open>filterAlertsForEvent\<close>: \<open>results\<close> is the slice the loop appends to. A panic of
  the source check ends the loop.
\<close>

fun filterAlertsForEvent_loop ::
  "EventServer \<Rightarrow> Event \<Rightarrow> Alert list \<Rightarrow> Alert list
     \<Rightarrow> LogEntry list \<times> (panic + Alert list)" where
  "filterAlertsForEvent_loop s event [] results = ([], Inr results)"
| "filterAlertsForEvent_loop s event (alert # rest) results =
     (if Suspend (Spec alert) then filterAlertsForEvent_loop s event rest results
      else
        (let m = eventMatchesAlertSources s event alert
         in case snd m of
              Inl p \<Rightarrow> (fst m, Inl p)
            | Inr False \<Rightarrow> after_logs (fst m) (filterAlertsForEvent_loop s event rest results)
            | Inr True \<Rightarrow>
                (let x = messageIsExcluded s (Message event) (ExclusionList (Spec alert))
                 in if snd x
                    then after_logs (fst m @ fst x)
                           (filterAlertsForEvent_loop s event rest results)
                    else after_logs (fst m @ fst x)
                           (filterAlertsForEvent_loop s event rest (results @ [alert])))))"

definition filterAlertsForEvent ::
  "EventServer \<Rightarrow> Alert list \<Rightarrow> Event \<Rightarrow> LogEntry list \<times> (panic + Alert list)" where
  "filterAlertsForEvent s alerts event = filterAlertsForEvent_loop s event alerts []"

section \<open>Metadata clean-up\<close>

text \<open>
  \<open>strings.HasPrefix\<close> and \<open>strings.TrimPrefix\<close>, as the Go library defines them.
\<close>

definition HasPrefix :: "string \<Rightarrow> string \<Rightarrow> bool" where
  "HasPrefix s pre = (length s \<ge> length pre \<and> take (length pre) s = pre)"

definition TrimPrefix :: "string \<Rightarrow> string \<Rightarrow> string" where
  "TrimPrefix s pre = (if HasPrefix s pre then drop (length pre) s else s)"

text \<open>
  \<open>inList\<close> compares with \<open>strings.EqualFold\<close> of the Go library, which is equality
  under Unicode case folding. The library function is a parameter of \<open>inList\<close> and of
  \<open>cleanupMetadata\<close>, named \<open>EqualFold\<close>.
\<close>

fun inList :: "(string \<Rightarrow> string \<Rightarrow> bool) \<Rightarrow> string list \<Rightarrow> string \<Rightarrow> bool" where
  "inList EqualFold [] i = False"
| "inList EqualFold (v # l) i = (if EqualFold v i then True else inList EqualFold l i)"

definition MetaChecksumKey :: string where
  "MetaChecksumKey = ''checksum''"

text \<open>
  The loop of \<open>cleanupMetadata\<close> over \<open>event.Metadata\<close>: \<open>keys\<close> are the keys in the
  order the \<open>range\<close> visits them, \<open>meta\<close> is the map being filled.
\<close>

fun cleanupMetadata_loop ::
  "(string \<Rightarrow> string \<Rightarrow> bool) \<Rightarrow> string \<Rightarrow> string list \<Rightarrow> (string \<rightharpoonup> string) \<Rightarrow> string list
     \<Rightarrow> (string \<rightharpoonup> string) \<Rightarrow> (string \<rightharpoonup> string)" where
  "cleanupMetadata_loop EqualFold grp excludeList md [] meta = meta"
| "cleanupMetadata_loop EqualFold grp excludeList md (key # keys) meta =
     (case md key of
        None \<Rightarrow> cleanupMetadata_loop EqualFold grp excludeList md keys meta
      | Some val \<Rightarrow>
          if HasPrefix key grp \<and> \<not> inList EqualFold excludeList key
          then cleanupMetadata_loop EqualFold grp excludeList md keys
                 (meta(TrimPrefix key (grp @ ''/'') \<mapsto> val))
          else cleanupMetadata_loop EqualFold grp excludeList md keys meta)"

text \<open>
  \<open>cleanupMetadata\<close>, given the order \<open>keys\<close> in which the keys of the metadata are
  visited. A nil or empty map has no key to visit, which is what the guard before the
  loop checks.
\<close>

definition cleanupMetadata ::
  "(string \<Rightarrow> string \<Rightarrow> bool) \<Rightarrow> string list \<Rightarrow> Event \<Rightarrow> Event" where
  "cleanupMetadata EqualFold keys event =
     (let grp = Group (GetGroupVersionKind (InvolvedObject event));
          excludeList = [grp @ ''/'' @ MetaChecksumKey];
          meta = (case Metadata event of
                    None \<Rightarrow> Map.empty
                  | Some md \<Rightarrow> cleanupMetadata_loop EqualFold grp excludeList md keys Map.empty)
      in event\<lparr>Metadata := Some meta\<rparr>)"

text \<open>
  An order in which a \<open>range\<close> loop can visit a map: every key once.
\<close>

definition range_order :: "(string \<rightharpoonup> string) option \<Rightarrow> string list \<Rightarrow> bool" where
  "range_order md keys =
     (distinct keys \<and> set keys = (case md of None \<Rightarrow> {} | Some m \<Rightarrow> dom m))"

section \<open>Building the notifier and dispatching\<close>

text \<open>\<open>GetTimeout\<close>: the provider's timeout, 15 seconds when none is set.\<close>

definition GetTimeout :: "Provider \<Rightarrow> int" where
  "GetTimeout p = (case Timeout (prov_Spec p) of None \<Rightarrow> 15 * 1000000000 | Some d \<Rightarrow> d)"

text \<open>
  \<open>createNotifier\<close>. The first block reads the provider's secret and overlays its keys
  on the provider's fields, the second reads the CA secret, and only then the address is
  required to be non-empty. The two \<open>%w\<close> verbs applied to a nil error render as
  \<open>%!w(<nil>)\<close>.
\<close>

definition createNotifier :: "EventServer \<Rightarrow> Provider \<Rightarrow> error + (Interface \<times> string)" where
  "createNotifier s provider =
     (let spec = prov_Spec provider in
      case
        (case SecretRef spec of
           None \<Rightarrow> Inr (Address spec, Username spec, Proxy spec, '''', '''', Map.empty)
         | Some secretRef \<Rightarrow>
             (case kubeGetSecret s (prov_Namespace provider) secretRef of
                Inl err \<Rightarrow> Inl (''failed to read secret: '' @ err)
              | Inr secretData \<Rightarrow>
                  (let webhook = (case secretData ''address'' of
                                    Some address \<Rightarrow> address | None \<Rightarrow> Address spec);
                       password = (case secretData ''password'' of Some p \<Rightarrow> p | None \<Rightarrow> '''');
                       proxy = (case secretData ''proxy'' of Some p \<Rightarrow> p | None \<Rightarrow> Proxy spec);
                       token = (case secretData ''token'' of Some t \<Rightarrow> t | None \<Rightarrow> '''');
                       username = (case secretData ''username'' of
                                     Some u \<Rightarrow> u | None \<Rightarrow> Username spec)
                   in case (case secretData ''address'' of
                              Some _ \<Rightarrow> url_Parse s webhook | None \<Rightarrow> None) of
                        Some err \<Rightarrow>
                          Inl (''invalid address in secret '' @ [CHR 0x27] @ webhook @ [CHR 0x27] @ '': '' @ err)
                      | None \<Rightarrow>
                          (case (case secretData ''proxy'' of
                                   Some _ \<Rightarrow> url_Parse s proxy | None \<Rightarrow> None) of
                             Some err \<Rightarrow>
                               Inl (''invalid proxy in secret '' @ [CHR 0x27] @ proxy @ [CHR 0x27] @ '': '' @ err)
                           | None \<Rightarrow>
                               (case (case secretData ''headers'' of
                                        Some h \<Rightarrow> yaml_Unmarshal s h
                                      | None \<Rightarrow> Inr Map.empty) of
                                  Inl err \<Rightarrow> Inl (''failed to read headers from secret: '' @ err)
                                | Inr headers \<Rightarrow>
                                    Inr (webhook, username, proxy, token, password, headers))))))
      of
        Inl err \<Rightarrow> Inl err
      | Inr (webhook, username, proxy, token, password, headers) \<Rightarrow>
          (case
             (case CertSecretRef spec of
                None \<Rightarrow> Inr None
              | Some certSecretRef \<Rightarrow>
                  (case kubeGetSecret s (prov_Namespace provider) certSecretRef of
                     Inl err \<Rightarrow> Inl (''failed to read cert secret: '' @ err)
                   | Inr secretData \<Rightarrow>
                       (case secretData ''caFile'' of
                          None \<Rightarrow> Inl ''failed to read secret key caFile: %!w(<nil>)''
                        | Some caFile \<Rightarrow>
                            if AppendCertsFromPEM s caFile then Inr (Some caFile)
                            else Inl ''could not append to cert pool: %!w(<nil>)'')))
           of
             Inl err \<Rightarrow> Inl err
           | Inr certPool \<Rightarrow>
               if webhook = '''' then Inl ''provider has no address''
               else
                 (case factory_Notifier s
                         \<lparr>f_webhook = webhook, f_proxy = proxy, f_username = username,
                          f_channel = Channel spec, f_token = token, f_headers = headers,
                          f_certPool = certPool, f_password = password,
                          f_providerUID = prov_UID provider\<rparr>
                         (Type spec) of
                    Inl err \<Rightarrow> Inl (''failed to initialize notifier: '' @ err)
                  | Inr sender \<Rightarrow> Inr (sender, token))))"

text \<open>
  \<open>getNotificationParams\<close>: \<open>Inr None\<close> is the return with a nil sender and a nil
  notification (the provider is suspended).
\<close>

definition getNotificationParams ::
  "EventServer \<Rightarrow> Event \<Rightarrow> Alert \<Rightarrow> error + Delivery option" where
  "getNotificationParams s event alert =
     (if noCrossNamespaceRefs s \<and> obj_Namespace (InvolvedObject event) \<noteq> alert_Namespace alert
      then Inl (''discarding event, access denied to cross-namespace sources: ''
                @ ''alert '' @ [CHR 0x27] @ alert_Namespace alert @ ''/'' @ alert_Name alert
                @ [CHR 0x27] @ '' can't process event from '' @ [CHR 0x27] @ obj_Kind (InvolvedObject event) @ ''/''
                @ obj_Namespace (InvolvedObject event) @ ''/'' @ obj_Name (InvolvedObject event)
                @ [CHR 0x27] @ '', cross-namespace references have been blocked'')
      else
        (case kubeGetProvider s (alert_Namespace alert) (ProviderRef (Spec alert)) of
           Inl err \<Rightarrow> Inl (''failed to read provider: '' @ err)
         | Inr provider \<Rightarrow>
             if prov_Suspend (prov_Spec provider) then Inr None
             else
               (case createNotifier s provider of
                  Inl err \<Rightarrow> Inl (''failed to initialize notifier: '' @ err)
                | Inr (sender, token) \<Rightarrow>
                    (let notification =
                           (if Summary (Spec alert) \<noteq> ''''
                            then (case Metadata event of
                                    None \<Rightarrow>
                                      event\<lparr>Metadata :=
                                        Some [''summary'' \<mapsto> Summary (Spec alert)]\<rparr>
                                  | Some md \<Rightarrow>
                                      event\<lparr>Metadata :=
                                        Some (md(''summary'' \<mapsto> Summary (Spec alert)))\<rparr>)
                            else event)
                     in Inr (Some \<lparr>d_Sender = sender, d_Notification = notification,
                                   d_Token = token, d_Timeout = GetTimeout provider\<rparr>)))))"

text \<open>
  \<open>dispatchNotification\<close>: an error of \<open>getNotificationParams\<close> is returned, a nil
  sender is skipped, and otherwise a goroutine is started with the delivery and nil is
  returned. What the goroutine does (the post and the masked log of its failure) happens
  after the handler has answered and is not part of the model.
\<close>

definition dispatchNotification ::
  "EventServer \<Rightarrow> Event \<Rightarrow> Alert \<Rightarrow> error + Delivery option" where
  "dispatchNotification s event alert =
     (case getNotificationParams s event alert of
        Inl err \<Rightarrow> Inl err
      | Inr None \<Rightarrow> Inr None
      | Inr (Some d) \<Rightarrow> Inr (Some d))"

section \<open>The ingress handler\<close>

text \<open>
  A request is represented by what \<open>io.ReadAll(r.Body)\<close> returns. The handler's result
  is the log it wrote, the deliveries it started, and the status it wrote with
  \<open>w.WriteHeader\<close>, or the panic that ended it.
\<close>

record Request =
  Body :: "error + string"

record Handled =
  h_Logs :: "LogEntry list"
  h_Started :: "Delivery list"
  h_Status :: "panic + nat"

definition StatusBadRequest :: nat where
  "StatusBadRequest = 400"

definition StatusAccepted :: nat where
  "StatusAccepted = 202"

text \<open>
  \<open>getAllAlertsForEvent\<close> returns a slice and an error: a nil slice with the wrapped
  error when the listing fails, the filtered alerts and no error otherwise.
\<close>

definition getAllAlertsForEvent ::
  "EventServer \<Rightarrow> Event \<Rightarrow> LogEntry list \<times> (panic + Alert list \<times> error option)" where
  "getAllAlertsForEvent s event =
     (case kubeListAlerts s of
        Inl err \<Rightarrow> ([], Inr ([], Some (''failed listing alerts: '' @ err)))
      | Inr items \<Rightarrow>
          (let r = filterAlertsForEvent s items event
           in (fst r, case snd r of Inl p \<Rightarrow> Inl p | Inr alerts \<Rightarrow> Inr (alerts, None))))"

text \<open>The dispatch loop of \<open>handleEvent\<close>: the log it writes and the deliveries started.\<close>

fun dispatch_loop ::
  "EventServer \<Rightarrow> Event \<Rightarrow> Alert list \<Rightarrow> LogEntry list \<times> Delivery list" where
  "dispatch_loop s event [] = ([], [])"
| "dispatch_loop s event (alert # rest) =
     (let r = dispatch_loop s event rest
      in case dispatchNotification s event alert of
           Inl err \<Rightarrow>
             (LogError err ''failed to dispatch notification to provider'' # fst r, snd r)
         | Inr None \<Rightarrow> r
         | Inr (Some d) \<Rightarrow> (fst r, d # snd r))"

definition handleEvent :: "EventServer \<Rightarrow> Request \<Rightarrow> Handled" where
  "handleEvent s r =
     (case Body r of
        Inl err \<Rightarrow>
          \<lparr>h_Logs = [LogError err ''reading the request body failed''], h_Started = [],
           h_Status = Inr StatusBadRequest\<rparr>
      | Inr body \<Rightarrow>
          (case json_Unmarshal s body of
             Inl err \<Rightarrow>
               \<lparr>h_Logs = [LogError err ''decoding the request body failed''], h_Started = [],
                h_Status = Inr StatusBadRequest\<rparr>
           | Inr decoded \<Rightarrow>
               (let event = cleanupMetadata (strings_EqualFold s)
                              (case Metadata decoded of None \<Rightarrow> [] | Some md \<Rightarrow> mapRange s md)
                              decoded;
                    got = getAllAlertsForEvent s event
                in case snd got of
                     Inl p \<Rightarrow> \<lparr>h_Logs = fst got, h_Started = [], h_Status = Inl p\<rparr>
                   | Inr (alerts, err) \<Rightarrow>
                       (let logs = fst got @
                              (case err of
                                 Some e \<Rightarrow> [LogError e ''failed to get alerts for the event: %w'']
                               | None \<Rightarrow> [])
                        in if length alerts = 0
                           then \<lparr>h_Logs = logs @
                                   [LogInfo ''Discarding event, no alerts found for the involved object''],
                                 h_Started = [], h_Status = Inr StatusAccepted\<rparr>
                           else
                             (let d = dispatch_loop s event alerts
                              in \<lparr>h_Logs = logs @
                                     [LogInfo (''Dispatching event: '' @ Message event)] @ fst d,
                                   h_Started = snd d, h_Status = Inr StatusAccepted\<rparr>)))))"

section \<open>The webhook path of a receiver\<close>

text \<open>
  \<open>sha256.Sum256\<close> of the Go library is SHA-256 as FIPS 180-4 defines it, on bytes
  and 32-bit words: the message is padded to a multiple of 64 bytes and each 64-byte
  block updates eight state words in 64 rounds.
\<close>

type_synonym byte = "8 word"
type_synonym u32 = "32 word"

definition sha256_K :: "u32 list" where
  "sha256_K = [
    0x428A2F98, 0x71374491, 0xB5C0FBCF, 0xE9B5DBA5, 0x3956C25B, 0x59F111F1, 0x923F82A4, 0xAB1C5ED5,
    0xD807AA98, 0x12835B01, 0x243185BE, 0x550C7DC3, 0x72BE5D74, 0x80DEB1FE, 0x9BDC06A7, 0xC19BF174,
    0xE49B69C1, 0xEFBE4786, 0x0FC19DC6, 0x240CA1CC, 0x2DE92C6F, 0x4A7484AA, 0x5CB0A9DC, 0x76F988DA,
    0x983E5152, 0xA831C66D, 0xB00327C8, 0xBF597FC7, 0xC6E00BF3, 0xD5A79147, 0x06CA6351, 0x14292967,
    0x27B70A85, 0x2E1B2138, 0x4D2C6DFC, 0x53380D13, 0x650A7354, 0x766A0ABB, 0x81C2C92E, 0x92722C85,
    0xA2BFE8A1, 0xA81A664B, 0xC24B8B70, 0xC76C51A3, 0xD192E819, 0xD6990624, 0xF40E3585, 0x106AA070,
    0x19A4C116, 0x1E376C08, 0x2748774C, 0x34B0BCB5, 0x391C0CB3, 0x4ED8AA4A, 0x5B9CCA4F, 0x682E6FF3,
    0x748F82EE, 0x78A5636F, 0x84C87814, 0x8CC70208, 0x90BEFFFA, 0xA4506CEB, 0xBEF9A3F7, 0xC67178F2]"

definition sha256_init :: "u32 list" where
  "sha256_init = [0x6A09E667, 0xBB67AE85, 0x3C6EF372, 0xA54FF53A,
                  0x510E527F, 0x9B05688C, 0x1F83D9AB, 0x5BE0CD19]"

definition rotr :: "nat \<Rightarrow> u32 \<Rightarrow> u32" where
  "rotr n x = drop_bit n x OR push_bit (32 - n) x"

definition sha256_s0 :: "u32 \<Rightarrow> u32" where
  "sha256_s0 x = rotr 7 x XOR rotr 18 x XOR drop_bit 3 x"

definition sha256_s1 :: "u32 \<Rightarrow> u32" where
  "sha256_s1 x = rotr 17 x XOR rotr 19 x XOR drop_bit 10 x"

definition sha256_S0 :: "u32 \<Rightarrow> u32" where
  "sha256_S0 x = rotr 2 x XOR rotr 13 x XOR rotr 22 x"

definition sha256_S1 :: "u32 \<Rightarrow> u32" where
  "sha256_S1 x = rotr 6 x XOR rotr 11 x XOR rotr 25 x"

text \<open>
  The message schedule, latest word first: from \<open>w\<^sub>t\<^sub>-\<^sub>1, w\<^sub>t\<^sub>-\<^sub>2, ...\<close> the next word
  is \<open>s1 w\<^sub>t\<^sub>-\<^sub>2 + w\<^sub>t\<^sub>-\<^sub>7 + s0 w\<^sub>t\<^sub>-\<^sub>1\<^sub>5 + w\<^sub>t\<^sub>-\<^sub>1\<^sub>6\<close>.
\<close>

fun sha256_schedule :: "nat \<Rightarrow> u32 list \<Rightarrow> u32 list" where
  "sha256_schedule 0 ws = ws"
| "sha256_schedule (Suc n) ws =
     sha256_schedule n ((sha256_s1 (ws ! 1) + ws ! 6 + sha256_s0 (ws ! 14) + ws ! 15) # ws)"

fun be32 :: "byte list \<Rightarrow> u32 list" where
  "be32 (a # b # c # d # rest) =
     (push_bit 24 (ucast a) OR push_bit 16 (ucast b) OR push_bit 8 (ucast c) OR ucast d)
       # be32 rest"
| "be32 _ = []"

fun sha256_round :: "u32 list \<Rightarrow> u32 \<times> u32 \<Rightarrow> u32 list" where
  "sha256_round [a, b, c, d, e, f, g, h] (k, w) =
     (let t1 = h + sha256_S1 e + ((e AND f) XOR (NOT e AND g)) + k + w;
          t2 = sha256_S0 a + ((a AND b) XOR (a AND c) XOR (b AND c))
      in [t1 + t2, a, b, c, d + t1, e, f, g])"
| "sha256_round st _ = st"

definition sha256_block :: "u32 list \<Rightarrow> byte list \<Rightarrow> u32 list" where
  "sha256_block hs chunk =
     map2 (+) hs
       (foldl sha256_round hs (zip sha256_K (rev (sha256_schedule 48 (rev (be32 chunk))))))"

definition sha256_pad :: "byte list \<Rightarrow> byte list" where
  "sha256_pad msg =
     msg @ [0x80] @ replicate ((119 - length msg mod 64) mod 64) 0
       @ map (\<lambda>i. ucast (drop_bit (8 * i) (word_of_nat (8 * length msg) :: 64 word)))
           (rev [0..<8])"

fun sha256_blocks :: "nat \<Rightarrow> u32 list \<Rightarrow> byte list \<Rightarrow> u32 list" where
  "sha256_blocks 0 hs bs = hs"
| "sha256_blocks (Suc n) hs bs = sha256_blocks n (sha256_block hs (take 64 bs)) (drop 64 bs)"

definition Sum256 :: "byte list \<Rightarrow> byte list" where
  "Sum256 msg =
     concat (map (\<lambda>w. map (\<lambda>i. ucast (drop_bit (8 * i) w)) (rev [0..<4]))
       (sha256_blocks (length (sha256_pad msg) div 64) sha256_init (sha256_pad msg)))"

text \<open>The conversion \<open>[]byte(s)\<close> and the verb \<open>%x\<close> of \<open>fmt\<close> on a byte array.\<close>

definition bytes :: "string \<Rightarrow> byte list" where
  "bytes s = map of_char s"

definition hexdigit :: "nat \<Rightarrow> char" where
  "hexdigit n = ''0123456789abcdef'' ! n"

definition hex :: "byte list \<Rightarrow> string" where
  "hex bs = concat (map (\<lambda>b. [hexdigit (unat b div 16), hexdigit (unat b mod 16)]) bs)"

text \<open>A receiver, as far as \<open>GetWebhookPath\<close> reads it: the name and namespace of its metadata.\<close>

record Receiver =
  rcv_Name :: string
  rcv_Namespace :: string

definition ReceiverWebhookPath :: string where
  "ReceiverWebhookPath = ''/hook/''"

definition GetName :: "Receiver \<Rightarrow> string" where
  "GetName r = rcv_Name r"

definition GetNamespace :: "Receiver \<Rightarrow> string" where
  "GetNamespace r = rcv_Namespace r"

definition GetWebhookPath :: "Receiver \<Rightarrow> string \<Rightarrow> string" where
  "GetWebhookPath r token =
     (let digest = Sum256 (bytes (token @ GetName r @ GetNamespace r))
      in ReceiverWebhookPath @ hex digest)"

section \<open>The CDEvents notifier\<close>

text \<open>
  The CDEvents sender and the part of a CDEvent of the SDK that \<open>Post\<close> sets or reads.
  The constructors of the SDK give an event its type, a fresh identifier and the current
  time; \<open>Post\<close> ignores the error they return.
\<close>

record CDEvents =
  cd_URL :: string
  cd_ProxyURL :: string
  cd_CertPool :: "string option"

datatype CDEventType =
    EnvironmentModifiedEvent
  | TaskRunFinishedEvent
  | TestCaseRunFinishedEvent
  | ServiceDeployedEvent
  | IncidentDetectedEvent

record Reference =
  ref_Id :: string
  ref_Source :: string

record CDEvent =
  ce_Type :: CDEventType
  ce_Id :: string
  ce_Timestamp :: string
  ce_Source :: string
  ce_SubjectId :: string
  ce_SubjectOutcome :: string
  ce_SubjectArtifactId :: string
  ce_SubjectEnvironment :: "Reference option"
  ce_CustomDataContentType :: string
  ce_CustomData :: "Event option"

text \<open>
  What \<open>Post\<close> takes from outside the repository: \<open>strings.ToLower\<close> of the Go
  library, which lowers the letters of Unicode, the identifier and the time that the
  SDK gives a new event, and \<open>postMessage\<close>, which is given the URL, the proxy, the
  certificate pool and the payload and returns the error of the send, if any. The request
  hook that \<open>Post\<close> passes along adds the CloudEvents headers, which it reads from the
  payload.
\<close>

record PostEnv =
  strings_ToLower :: "string \<Rightarrow> string"
  sdk_NewId :: string
  sdk_Now :: string
  postMessage :: "string \<Rightarrow> string \<Rightarrow> string option \<Rightarrow> CDEvent \<Rightarrow> error option"

definition NewCDEvent :: "PostEnv \<Rightarrow> CDEventType \<Rightarrow> CDEvent" where
  "NewCDEvent env t =
     \<lparr>ce_Type = t, ce_Id = sdk_NewId env, ce_Timestamp = sdk_Now env, ce_Source = '''',
      ce_SubjectId = '''', ce_SubjectOutcome = '''', ce_SubjectArtifactId = '''',
      ce_SubjectEnvironment = None, ce_CustomDataContentType = '''', ce_CustomData = None\<rparr>"

text \<open>
  \<open>Post\<close> returns the payload it hands to \<open>postMessage\<close> and the error it returns to
  its caller. The slice \<open>facts\<close> that the function fills from the metadata is never read
  and is left out, as is the line printed to the standard output. \<open>err1\<close> is declared
  and never assigned.
\<close>

definition Post :: "PostEnv \<Rightarrow> CDEvents \<Rightarrow> Event \<Rightarrow> CDEvent \<times> error option" where
  "Post env s event =
     (let err1 = (None :: error option);
          reason = strings_ToLower env (Reason event);
          mapped =
            (if reason = ''installsucceeded'' then NewCDEvent env EnvironmentModifiedEvent
             else if reason = ''upgradesucceeded''
               then (NewCDEvent env TaskRunFinishedEvent)\<lparr>ce_SubjectOutcome := ''Success''\<rparr>
             else if reason = ''upgradefailed''
               then (NewCDEvent env TaskRunFinishedEvent)\<lparr>ce_SubjectOutcome := ''Failure''\<rparr>
             else if reason = ''testsucceeded''
               then (NewCDEvent env TestCaseRunFinishedEvent)\<lparr>ce_SubjectOutcome := ''Success''\<rparr>
             else if reason = ''testfailed''
               then (NewCDEvent env TestCaseRunFinishedEvent)\<lparr>ce_SubjectOutcome := ''Success''\<rparr>
             else if reason = ''rollbacksucceeded''
               then (NewCDEvent env TaskRunFinishedEvent)\<lparr>ce_SubjectOutcome := ''Success''\<rparr>
             else if reason = ''rollbackfailed''
               then (NewCDEvent env TaskRunFinishedEvent)\<lparr>ce_SubjectOutcome := ''Failure''\<rparr>
             else if reason = ''driftdetected''
               then (NewCDEvent env TaskRunFinishedEvent)\<lparr>ce_SubjectOutcome := ''Failure''\<rparr>
             else if reason = ''reconciliationsucceeded''
               then (NewCDEvent env ServiceDeployedEvent)
                      \<lparr>ce_SubjectArtifactId := obj_UID (InvolvedObject event),
                       ce_SubjectEnvironment :=
                         Some \<lparr>ref_Id = obj_UID (InvolvedObject event),
                               ref_Source = obj_Name (InvolvedObject event)\<rparr>\<rparr>
             else NewCDEvent env IncidentDetectedEvent);
          sourceFormat = obj_Name (InvolvedObject event) @ ''.'' @ obj_Kind (InvolvedObject event);
          payload = mapped
            \<lparr>ce_Source := sourceFormat,
             ce_CustomDataContentType := ''application/json'',
             ce_CustomData := Some event,
             ce_SubjectId := obj_UID (InvolvedObject event)\<rparr>;
          err = postMessage env (cd_URL s) (cd_ProxyURL s) (cd_CertPool s) payload
      in (payload,
          case err of
            None \<Rightarrow> None
          | Some e \<Rightarrow>
              (case err1 of
                 None \<Rightarrow> None
               | Some _ \<Rightarrow> Some (''postMessage failed: '' @ e))))"

section \<open>Example data\<close>

text \<open>
  The objects of the scenarios: a HelmRelease event, an alert on every HelmRelease of the
  namespace, the same alert suspended, and a server whose store holds them. The regular
  expressions of the examples are \<open>(\<close>, which does not compile, and literal words, which
  match a message exactly when it contains them.
\<close>

fun Contains :: "string \<Rightarrow> string \<Rightarrow> bool" where
  "Contains [] substr = (substr = [])"
| "Contains (c # s) substr = (HasPrefix (c # s) substr \<or> Contains s substr)"

text \<open>
  On a string of ASCII bytes \<open>strings.ToLower\<close> turns the letters \<open>A\<close> to \<open>Z\<close> into
  \<open>a\<close> to \<open>z\<close> and leaves every other byte, and \<open>strings.EqualFold\<close> holds of two
  such strings exactly when they are equal after that. The strings of the examples are
  ASCII, and the examples take these two functions for the library's.
\<close>

definition lower_byte :: "char \<Rightarrow> char" where
  "lower_byte c =
     (if (65::nat) \<le> of_char c \<and> of_char c \<le> (90::nat)
      then char_of (of_char c + (32::nat)) else c)"

definition ascii_ToLower :: "string \<Rightarrow> string" where
  "ascii_ToLower s = map lower_byte s"

definition ascii_EqualFold :: "string \<Rightarrow> string \<Rightarrow> bool" where
  "ascii_EqualFold s t = (ascii_ToLower s = ascii_ToLower t)"

definition example_object :: ObjectReference where
  "example_object =
     \<lparr>obj_Kind = ''HelmRelease'', obj_Namespace = ''ns1'', obj_Name = ''podinfo'',
      obj_UID = ''b6d37d27-a5e2-4423-9407-c4c2331aa2c6'',
      obj_APIVersion = ''helm.toolkit.fluxcd.io/v2beta2'', obj_ResourceVersion = ''437798''\<rparr>"

definition example_event :: Event where
  "example_event =
     \<lparr>InvolvedObject = example_object, Severity = ''info'', Message = ''install ok'',
      Reason = ''UpgradeSucceeded'',
      Metadata = Some [''helm.toolkit.fluxcd.io/revision'' \<mapsto> ''1.0'',
                       ''helm.toolkit.fluxcd.io/checksum'' \<mapsto> ''abc'',
                       ''other/x'' \<mapsto> ''y''],
      ReportingController = ''helm-controller'',
      ReportingInstance = ''helm-controller-5855b58cfb-9f8kj''\<rparr>"

definition example_source :: CrossNamespaceObjectReference where
  "example_source =
     \<lparr>src_Kind = ''HelmRelease'', src_Name = ''*'', src_Namespace = ''ns1'',
      MatchLabels = None\<rparr>"

definition example_alert :: Alert where
  "example_alert =
     \<lparr>alert_Name = ''a1'', alert_Namespace = ''ns1'',
      Spec = \<lparr>ProviderRef = ''slack1'', EventSeverity = ''info'',
              EventSources = [example_source], ExclusionList = [''('', ''drift''],
              Summary = '''', Suspend = False\<rparr>\<rparr>"

definition example_suspended :: Alert where
  "example_suspended =
     \<lparr>alert_Name = ''a0'', alert_Namespace = ''ns1'',
      Spec = \<lparr>ProviderRef = ''slack1'', EventSeverity = ''info'',
              EventSources = [example_source], ExclusionList = [],
              Summary = '''', Suspend = True\<rparr>\<rparr>"

definition example_provider :: Provider where
  "example_provider =
     \<lparr>prov_Name = ''slack1'', prov_Namespace = ''ns1'', prov_UID = ''42'',
      prov_Spec = \<lparr>Type = ''slack'', Channel = ''general'', Username = ''flux'',
                   Address = '''', Timeout = None, Proxy = '''',
                   SecretRef = Some ''slack-token'', CertSecretRef = None,
                   prov_Suspend = False\<rparr>\<rparr>"

definition example_server :: EventServer where
  "example_server =
     \<lparr>noCrossNamespaceRefs = False,
      kubeListAlerts = Inl ''context deadline exceeded'',
      kubeGetObjectLabels = (\<lambda>gvk ns name. Inl ''not found''),
      kubeGetProvider =
        (\<lambda>ns name. if ns = ''ns1'' \<and> name = ''slack1'' then Inr example_provider
                    else Inl ''not found''),
      kubeGetSecret =
        (\<lambda>ns name. if ns = ''ns1'' \<and> name = ''slack-token''
                    then Inr [''token'' \<mapsto> ''super-secret''] else Inl ''not found''),
      mapRange =
        (\<lambda>m. filter (\<lambda>k. m k \<noteq> None)
               [''other/x'', ''helm.toolkit.fluxcd.io/checksum'',
                ''helm.toolkit.fluxcd.io/revision'']),
      json_Unmarshal =
        (\<lambda>body. if body = ''{}'' then Inr example_event else Inl ''unexpected end of JSON input''),
      strings_EqualFold = ascii_EqualFold,
      regexp_Compile =
        (\<lambda>exp. if exp = ''('' then Inl ''error parsing regexp: missing closing ): `(`''
                else Inr (\<lambda>msg. Contains msg exp)),
      LabelSelectorAsSelector = (\<lambda>matchLabels. Inr (\<lambda>labels. matchLabels \<subseteq>\<^sub>m labels)),
      url_Parse = (\<lambda>u. None),
      yaml_Unmarshal = (\<lambda>h. Inr Map.empty),
      AppendCertsFromPEM = (\<lambda>pem. True),
      factory_Notifier = (\<lambda>f t. Inr (Sender t f))\<rparr>"

text \<open>
  A CDEvents sender and two worlds for it: one in which every send succeeds and one in
  which every send fails.
\<close>

definition example_cdevents :: CDEvents where
  "example_cdevents =
     \<lparr>cd_URL = ''http://localhost:9393'', cd_ProxyURL = '''', cd_CertPool = None\<rparr>"

definition example_post_env :: PostEnv where
  "example_post_env =
     \<lparr>strings_ToLower = ascii_ToLower, sdk_NewId = ''1'', sdk_Now = ''2024-01-01T00:00:00Z'',
      postMessage = (\<lambda>url proxy certPool payload. None)\<rparr>"

definition example_failing_env :: PostEnv where
  "example_failing_env =
     \<lparr>strings_ToLower = ascii_ToLower, sdk_NewId = ''1'', sdk_Now = ''2024-01-01T00:00:00Z'',
      postMessage = (\<lambda>url proxy certPool payload. Some ''connection refused'')\<rparr>"

section \<open>Properties\<close>

subsection \<open>Logs of consecutive steps\<close>

lemma snd_after_logs: "snd (after_logs l r) = snd r"
  by (simp add: after_logs_def)

lemma fst_after_logs: "fst (after_logs l r) = l @ fst r"
  by (simp add: after_logs_def)

subsection \<open>Suspended alerts\<close>

text \<open>
  Whatever the loop of \<open>filterAlertsForEvent\<close> returns was in \<open>results\<close> before or is an
  alert of the list that is not suspended.
\<close>

lemma filterAlertsForEvent_loop_subset:
  "snd (filterAlertsForEvent_loop s event alerts acc) = Inr results \<Longrightarrow>
   set results \<subseteq> set acc \<union> {a \<in> set alerts. \<not> Suspend (Spec a)}"
proof (induction alerts arbitrary: acc)
  case Nil
  then show ?case by simp
next
  case (Cons alert rest)
  show ?case
  proof (cases "Suspend (Spec alert)")
    case True
    with Cons.prems have "snd (filterAlertsForEvent_loop s event rest acc) = Inr results"
      by simp
    from Cons.IH [OF this] show ?thesis by auto
  next
    case False
    show ?thesis
    proof (cases "snd (eventMatchesAlertSources s event alert)")
      case (Inl p)
      with False Cons.prems show ?thesis by (simp add: Let_def)
    next
      case (Inr b)
      show ?thesis
      proof (cases "b \<and> \<not> snd (messageIsExcluded s (Message event) (ExclusionList (Spec alert)))")
        case True
        with False Inr Cons.prems
        have "snd (filterAlertsForEvent_loop s event rest (acc @ [alert])) = Inr results"
          by (simp add: Let_def snd_after_logs)
        from Cons.IH [OF this] False show ?thesis by auto
      next
        case F: False
        with False Inr Cons.prems
        have "snd (filterAlertsForEvent_loop s event rest acc) = Inr results"
          by (auto simp: Let_def snd_after_logs split: bool.splits if_splits)
        from Cons.IH [OF this] show ?thesis by auto
      qed
    qed
  qed
qed

text \<open>
  Claim C1. For every event and every list of alerts, an alert in the match set that
  \<open>filterAlertsForEvent\<close> returns is an alert of the list whose \<open>Spec.Suspend\<close> is
  false: a suspended alert is never in the match set.
\<close>

theorem filterAlertsForEvent_never_suspended:
  "snd (filterAlertsForEvent s alerts event) = Inr results \<Longrightarrow> a \<in> set results \<Longrightarrow>
   a \<in> set alerts \<and> \<not> Suspend (Spec a)"
  using filterAlertsForEvent_loop_subset [of s event alerts "[]" results]
  by (auto simp: filterAlertsForEvent_def)

lemma example_filter:
  "snd (filterAlertsForEvent example_server [example_suspended, example_alert] example_event)
     = Inr [example_alert]"
  by (simp add: filterAlertsForEvent_def eventMatchesAlertSources_def eventMatchesAlert_def
      messageIsExcluded_def example_server_def example_suspended_def example_alert_def
      example_event_def example_object_def example_source_def EventSeverityInfo_def
      after_logs_def HasPrefix_def Let_def)

theorem filterAlertsForEvent_never_suspended_witness:
  "snd (filterAlertsForEvent example_server [example_suspended, example_alert] example_event)
     = Inr [example_alert] \<and>
   example_alert \<in> set [example_suspended, example_alert] \<and>
   Suspend (Spec example_suspended) \<and> \<not> Suspend (Spec example_alert)"
  using filterAlertsForEvent_never_suspended [OF example_filter, of example_alert]
    example_filter
  by (simp add: example_suspended_def)

subsection \<open>The exclusion list\<close>

lemma messageIsExcluded_loop_result:
  "snd (messageIsExcluded_loop s msg R) =
     (\<exists>exp \<in> set R. \<exists>r. regexp_Compile s exp = Inr r \<and> r msg)"
  by (induction R) (auto simp: snd_after_logs split: sum.splits)

lemma messageIsExcluded_loop_log:
  "fst (messageIsExcluded_loop s msg R) =
     concat (map (\<lambda>exp. case regexp_Compile s exp of
                          Inl err \<Rightarrow> [LogError err (''failed to compile regex: '' @ exp)]
                        | Inr r \<Rightarrow> [])
       (takeWhile (\<lambda>exp. \<not> (\<exists>r. regexp_Compile s exp = Inr r \<and> r msg)) R))"
  by (induction R) (auto simp: fst_after_logs split: sum.splits)

text \<open>
  Claim C2. For every exclusion list \<open>R\<close> and message \<open>msg\<close>, \<open>messageIsExcluded\<close>
  returns true if and only if some entry of \<open>R\<close> compiles and matches \<open>msg\<close>. An entry
  that does not compile never excludes and never ends the evaluation: it is logged and
  the entries after it are still tried. The log holds one entry for each expression that
  failed to compile among those the loop reached, which are the entries before the first
  one that matches, and all of them when the message is not excluded.
\<close>

theorem messageIsExcluded_iff:
  "(snd (messageIsExcluded s msg R) \<longleftrightarrow>
      (\<exists>exp \<in> set R. \<exists>r. regexp_Compile s exp = Inr r \<and> r msg)) \<and>
   fst (messageIsExcluded s msg R) =
     concat (map (\<lambda>exp. case regexp_Compile s exp of
                          Inl err \<Rightarrow> [LogError err (''failed to compile regex: '' @ exp)]
                        | Inr r \<Rightarrow> [])
       (takeWhile (\<lambda>exp. \<not> (\<exists>r. regexp_Compile s exp = Inr r \<and> r msg)) R)) \<and>
   (\<not> snd (messageIsExcluded s msg R) \<longrightarrow>
      fst (messageIsExcluded s msg R) =
        concat (map (\<lambda>exp. case regexp_Compile s exp of
                             Inl err \<Rightarrow> [LogError err (''failed to compile regex: '' @ exp)]
                           | Inr r \<Rightarrow> []) R))"
proof -
  have res: "snd (messageIsExcluded s msg R) \<longleftrightarrow>
      (\<exists>exp \<in> set R. \<exists>r. regexp_Compile s exp = Inr r \<and> r msg)"
    by (cases R)
       (simp_all add: messageIsExcluded_def messageIsExcluded_loop_result
          del: messageIsExcluded_loop.simps)
  have log: "fst (messageIsExcluded s msg R) =
     concat (map (\<lambda>exp. case regexp_Compile s exp of
                          Inl err \<Rightarrow> [LogError err (''failed to compile regex: '' @ exp)]
                        | Inr r \<Rightarrow> [])
       (takeWhile (\<lambda>exp. \<not> (\<exists>r. regexp_Compile s exp = Inr r \<and> r msg)) R))"
    by (cases R)
       (simp_all add: messageIsExcluded_def messageIsExcluded_loop_log
          del: messageIsExcluded_loop.simps)
  have full: "fst (messageIsExcluded s msg R) =
        concat (map (\<lambda>exp. case regexp_Compile s exp of
                             Inl err \<Rightarrow> [LogError err (''failed to compile regex: '' @ exp)]
                           | Inr r \<Rightarrow> []) R)"
    if no: "\<not> snd (messageIsExcluded s msg R)"
  proof -
    from no res
    have "takeWhile (\<lambda>exp. \<not> (\<exists>r. regexp_Compile s exp = Inr r \<and> r msg)) R = R"
      by (intro takeWhile_eq_all_conv [THEN iffD2]) blast
    with log show ?thesis by (simp only:)
  qed
  from res log full show ?thesis by blast
qed

lemma example_excluded:
  "messageIsExcluded example_server ''Cluster drift detected'' [''('', ''drift'', ''(''] =
     ([LogError ''error parsing regexp: missing closing ): `(`'' ''failed to compile regex: (''],
      True)"
  by (simp add: messageIsExcluded_def example_server_def after_logs_def HasPrefix_def)

theorem messageIsExcluded_iff_witness:
  "snd (messageIsExcluded example_server ''Cluster drift detected'' [''('', ''drift'', ''('']) \<and>
   (\<exists>exp \<in> set [''('', ''drift'', ''(''].
      \<exists>r. regexp_Compile example_server exp = Inr r \<and> r ''Cluster drift detected'') \<and>
   fst (messageIsExcluded example_server ''Cluster drift detected'' [''('', ''drift'', ''('']) =
     [LogError ''error parsing regexp: missing closing ): `(`'' ''failed to compile regex: ('']"
  using messageIsExcluded_iff [of example_server "''Cluster drift detected''"
      "[''('', ''drift'', ''('']"] example_excluded
  by simp

subsection \<open>Severity\<close>

text \<open>
  Claim C3. For an alert of severity \<open>info\<close> the severity of the event plays no part in
  \<open>eventMatchesAlert\<close>: changing it changes nothing, and the event is rejected exactly
  when the namespace, the kind, the name or the labels reject it. For any other alert
  severity the event is rejected when its severity differs from the alert's, and when the
  two are equal the result is the one the other criteria give.
\<close>

theorem eventMatchesAlert_severity:
  "eventMatchesAlert s (event\<lparr>Severity := sev\<rparr>) source EventSeverityInfo =
     eventMatchesAlert s event source EventSeverityInfo \<and>
   (snd (eventMatchesAlert s event source EventSeverityInfo) = Inr False \<longleftrightarrow>
     obj_Namespace (InvolvedObject event) \<noteq> src_Namespace source \<or>
     obj_Kind (InvolvedObject event) \<noteq> src_Kind source \<or>
     (src_Name source \<noteq> ''*'' \<and> src_Name source \<noteq> obj_Name (InvolvedObject event)) \<or>
     (\<exists>matchLabels sel. MatchLabels source = Some matchLabels \<and>
        LabelSelectorAsSelector s matchLabels = Inr sel \<and>
        \<not> sel (case kubeGetObjectLabels s (GetGroupVersionKind (InvolvedObject event))
                      (obj_Namespace (InvolvedObject event)) (obj_Name (InvolvedObject event)) of
                 Inl err \<Rightarrow> Map.empty | Inr ls \<Rightarrow> ls))) \<and>
   (severity \<noteq> EventSeverityInfo \<and> Severity event \<noteq> severity \<longrightarrow>
     eventMatchesAlert s event source severity = ([], Inr False)) \<and>
   (severity \<noteq> EventSeverityInfo \<and> Severity event = severity \<longrightarrow>
     eventMatchesAlert s event source severity =
       eventMatchesAlert s event source EventSeverityInfo)"
  by (auto simp: eventMatchesAlert_def Let_def split: option.splits sum.splits)

theorem eventMatchesAlert_severity_witness:
  "eventMatchesAlert example_server (example_event\<lparr>Severity := ''error''\<rparr>) example_source
       EventSeverityInfo = ([], Inr True) \<and>
   ''error'' \<noteq> EventSeverityInfo \<and> Severity example_event \<noteq> ''error'' \<and>
   eventMatchesAlert example_server example_event example_source ''error'' = ([], Inr False) \<and>
   ''trace'' \<noteq> EventSeverityInfo \<and> Severity (example_event\<lparr>Severity := ''trace''\<rparr>) = ''trace'' \<and>
   eventMatchesAlert example_server (example_event\<lparr>Severity := ''trace''\<rparr>) example_source
       ''trace'' = ([], Inr True) \<and>
   snd (eventMatchesAlert example_server example_event
          (example_source\<lparr>src_Name := ''other''\<rparr>) EventSeverityInfo) = Inr False"
proof -
  have info: "eventMatchesAlert example_server example_event example_source EventSeverityInfo
      = ([], Inr True)"
    by (simp add: eventMatchesAlert_def example_server_def example_event_def
        example_object_def example_source_def EventSeverityInfo_def)
  have neq: "''error'' \<noteq> EventSeverityInfo" "''trace'' \<noteq> EventSeverityInfo"
    "Severity example_event \<noteq> ''error''"
    by (simp_all add: EventSeverityInfo_def example_event_def)
  have other: "src_Name (example_source\<lparr>src_Name := ''other''\<rparr>) \<noteq> ''*'' \<and>
     src_Name (example_source\<lparr>src_Name := ''other''\<rparr>) \<noteq> obj_Name (InvolvedObject example_event)"
    by (simp add: example_event_def example_object_def)
  show ?thesis
    using eventMatchesAlert_severity [where s = example_server and event = example_event
        and sev = "''error''" and source = example_source and severity = "''error''"]
      eventMatchesAlert_severity [where s = example_server
        and event = "example_event\<lparr>Severity := ''trace''\<rparr>"
        and sev = "''info''" and source = example_source and severity = "''trace''"]
      eventMatchesAlert_severity [where s = example_server and event = example_event
        and sev = "''trace''" and source = example_source and severity = "''trace''"]
      eventMatchesAlert_severity [where s = example_server and event = example_event
        and sev = "''x''" and source = "example_source\<lparr>src_Name := ''other''\<rparr>"
        and severity = "''x''"]
      info neq other
    by simp
qed

subsection \<open>Providers without an address\<close>

text \<open>
  Claim C8. For every provider whose \<open>Spec.Address\<close> is empty and whose secret, if it
  names one and the secret can be read, has no \<open>address\<close> key, \<open>createNotifier\<close>
  returns an error and no notifier.
\<close>

theorem createNotifier_no_address:
  assumes "Address (prov_Spec provider) = ''''"
    and "\<forall>secretRef secretData.
           SecretRef (prov_Spec provider) = Some secretRef \<and>
           kubeGetSecret s (prov_Namespace provider) secretRef = Inr secretData \<longrightarrow>
           secretData ''address'' = None"
  shows "\<exists>err. createNotifier s provider = Inl err"
proof (cases "SecretRef (prov_Spec provider)")
  case None
  with assms(1) show ?thesis
    by (simp add: createNotifier_def Let_def split: sum.split)
next
  case (Some secretRef)
  show ?thesis
  proof (cases "kubeGetSecret s (prov_Namespace provider) secretRef")
    case (Inl err)
    with Some show ?thesis by (simp add: createNotifier_def Let_def)
  next
    case (Inr secretData)
    with Some assms(2) have "secretData ''address'' = None" by blast
    with Some Inr assms(1) show ?thesis
      by (simp add: createNotifier_def Let_def split: sum.split option.split)
  qed
qed

theorem createNotifier_no_address_witness:
  "Address (prov_Spec example_provider) = '''' \<and>
   SecretRef (prov_Spec example_provider) = Some ''slack-token'' \<and>
   kubeGetSecret example_server (prov_Namespace example_provider) ''slack-token''
     = Inr [''token'' \<mapsto> ''super-secret''] \<and>
   createNotifier example_server example_provider = Inl ''provider has no address''"
proof -
  have a: "Address (prov_Spec example_provider) = ''''"
    by (simp add: example_provider_def)
  have b: "\<forall>secretRef secretData.
           SecretRef (prov_Spec example_provider) = Some secretRef \<and>
           kubeGetSecret example_server (prov_Namespace example_provider) secretRef
             = Inr secretData \<longrightarrow>
           secretData ''address'' = None"
    by (auto simp: example_provider_def example_server_def)
  have c: "createNotifier example_server example_provider = Inl ''provider has no address''"
    by (simp add: createNotifier_def example_provider_def example_server_def)
  from createNotifier_no_address [OF a b] c show ?thesis
    by (simp add: example_provider_def example_server_def)
qed

subsection \<open>A failed listing of the alerts\<close>

text \<open>
  Claim C10. Once the body of the request is read and decoded, a failure to list the
  alerts is logged and the handler answers 202 Accepted as for an event that no alert
  matches: no delivery is started, no panic is raised and the status is neither 4xx nor
  5xx.
\<close>

theorem handleEvent_list_failure:
  assumes "Body r = Inr body"
    and "json_Unmarshal s body = Inr decoded"
    and "kubeListAlerts s = Inl err"
  shows "h_Status (handleEvent s r) = Inr StatusAccepted \<and>
    StatusAccepted = 202 \<and>
    h_Started (handleEvent s r) = [] \<and>
    h_Logs (handleEvent s r) =
      [LogError (''failed listing alerts: '' @ err) ''failed to get alerts for the event: %w'',
       LogInfo ''Discarding event, no alerts found for the involved object'']"
  using assms
  by (simp add: handleEvent_def getAllAlertsForEvent_def Let_def StatusAccepted_def)

theorem handleEvent_list_failure_witness:
  "Body \<lparr>Body = Inr ''{}''\<rparr> = Inr ''{}'' \<and>
   json_Unmarshal example_server ''{}'' = Inr example_event \<and>
   kubeListAlerts example_server = Inl ''context deadline exceeded'' \<and>
   h_Status (handleEvent example_server \<lparr>Body = Inr ''{}''\<rparr>) = Inr 202"
proof -
  have a: "Body \<lparr>Body = Inr ''{}''\<rparr> = Inr ''{}''" by simp
  have b: "json_Unmarshal example_server ''{}'' = Inr example_event"
    by (simp add: example_server_def)
  have c: "kubeListAlerts example_server = Inl ''context deadline exceeded''"
    by (simp add: example_server_def)
  from handleEvent_list_failure [OF a b c] a b c show ?thesis by simp
qed

subsection \<open>The CDEvents notifier\<close>

lemma ascii_ToLower_examples:
  "ascii_ToLower ''UpgradeSucceeded'' = ''upgradesucceeded''"
  "ascii_ToLower ''TestSucceeded'' = ''testsucceeded''"
  "ascii_ToLower ''TestFailed'' = ''testfailed''"
  "ascii_ToLower ''Progressing'' = ''progressing''"
  by (simp_all add: ascii_ToLower_def lower_byte_def char_of_def bit_0)

text \<open>
  Claim C9. \<open>Post\<close> returns nil for every event and every outcome of the send: the
  error of \<open>postMessage\<close> is returned only when \<open>err1\<close> is set too, and it never is.
\<close>

theorem Post_returns_nil:
  "snd (Post env s event) = None"
  by (simp add: Post_def Let_def split: option.split)

theorem Post_returns_nil_witness:
  "postMessage example_failing_env (cd_URL example_cdevents) (cd_ProxyURL example_cdevents)
     (cd_CertPool example_cdevents) (fst (Post example_failing_env example_cdevents example_event))
     = Some ''connection refused'' \<and>
   snd (Post example_failing_env example_cdevents example_event) = None"
  using Post_returns_nil [of example_failing_env example_cdevents example_event]
  by (simp add: example_failing_env_def)

text \<open>
  The claim that \<open>testsucceeded\<close> maps to TaskRunFinished and that every reason outside
  the list maps to IncidentDetected fails: both test reasons have a case of their own,
  which builds a TestCaseRunFinished event.
\<close>

theorem Post_test_reasons_counterexample:
  "strings_ToLower example_post_env (Reason (example_event\<lparr>Reason := ''TestSucceeded''\<rparr>))
     = ''testsucceeded'' \<and>
   ce_Type (fst (Post example_post_env example_cdevents
                   (example_event\<lparr>Reason := ''TestSucceeded''\<rparr>))) \<noteq> TaskRunFinishedEvent \<and>
   strings_ToLower example_post_env (Reason (example_event\<lparr>Reason := ''TestFailed''\<rparr>))
     = ''testfailed'' \<and>
   ce_Type (fst (Post example_post_env example_cdevents
                   (example_event\<lparr>Reason := ''TestFailed''\<rparr>))) \<noteq> IncidentDetectedEvent"
  by (simp add: Post_def Let_def NewCDEvent_def example_post_env_def ascii_ToLower_examples)

text \<open>
  Claim C7, amended. \<open>Post\<close> chooses the payload from the reason of the event as
  \<open>strings.ToLower\<close> returns it:
  \<open>installsucceeded\<close> gives EnvironmentModified; \<open>upgradesucceeded\<close> and
  \<open>rollbacksucceeded\<close> give TaskRunFinished with outcome Success; \<open>testsucceeded\<close>
  gives TestCaseRunFinished with outcome Success; \<open>testfailed\<close> gives
  TestCaseRunFinished; \<open>upgradefailed\<close>, \<open>rollbackfailed\<close> and \<open>driftdetected\<close> give
  TaskRunFinished with outcome Failure; \<open>reconciliationsucceeded\<close> gives ServiceDeployed;
  any other reason gives IncidentDetected. The source of the payload is the name and the
  kind of the involved object joined by a dot, and its subject id is the UID of the
  involved object.
\<close>

theorem Post_payload:
  "(strings_ToLower env (Reason event) = ''installsucceeded'' \<longrightarrow>
      ce_Type (fst (Post env s event)) = EnvironmentModifiedEvent) \<and>
   (strings_ToLower env (Reason event) \<in> {''upgradesucceeded'', ''rollbacksucceeded''} \<longrightarrow>
      ce_Type (fst (Post env s event)) = TaskRunFinishedEvent \<and>
      ce_SubjectOutcome (fst (Post env s event)) = ''Success'') \<and>
   (strings_ToLower env (Reason event) = ''testsucceeded'' \<longrightarrow>
      ce_Type (fst (Post env s event)) = TestCaseRunFinishedEvent \<and>
      ce_SubjectOutcome (fst (Post env s event)) = ''Success'') \<and>
   (strings_ToLower env (Reason event) = ''testfailed'' \<longrightarrow>
      ce_Type (fst (Post env s event)) = TestCaseRunFinishedEvent) \<and>
   (strings_ToLower env (Reason event)
      \<in> {''upgradefailed'', ''rollbackfailed'', ''driftdetected''} \<longrightarrow>
      ce_Type (fst (Post env s event)) = TaskRunFinishedEvent \<and>
      ce_SubjectOutcome (fst (Post env s event)) = ''Failure'') \<and>
   (strings_ToLower env (Reason event) = ''reconciliationsucceeded'' \<longrightarrow>
      ce_Type (fst (Post env s event)) = ServiceDeployedEvent) \<and>
   (strings_ToLower env (Reason event) \<notin>
        {''installsucceeded'', ''upgradesucceeded'', ''upgradefailed'', ''testsucceeded'',
         ''testfailed'', ''rollbacksucceeded'', ''rollbackfailed'', ''driftdetected'',
         ''reconciliationsucceeded''} \<longrightarrow>
      ce_Type (fst (Post env s event)) = IncidentDetectedEvent) \<and>
   ce_Source (fst (Post env s event)) =
     obj_Name (InvolvedObject event) @ ''.'' @ obj_Kind (InvolvedObject event) \<and>
   ce_SubjectId (fst (Post env s event)) = obj_UID (InvolvedObject event)"
  by (simp add: Post_def Let_def NewCDEvent_def)

theorem Post_payload_witness:
  "strings_ToLower example_post_env (Reason example_event)
     \<in> {''upgradesucceeded'', ''rollbacksucceeded''} \<and>
   ce_Type (fst (Post example_post_env example_cdevents example_event)) = TaskRunFinishedEvent \<and>
   ce_SubjectOutcome (fst (Post example_post_env example_cdevents example_event)) = ''Success'' \<and>
   ce_Source (fst (Post example_post_env example_cdevents example_event)) = ''podinfo.HelmRelease'' \<and>
   strings_ToLower example_post_env (Reason (example_event\<lparr>Reason := ''Progressing''\<rparr>)) \<notin>
        {''installsucceeded'', ''upgradesucceeded'', ''upgradefailed'', ''testsucceeded'',
         ''testfailed'', ''rollbacksucceeded'', ''rollbackfailed'', ''driftdetected'',
         ''reconciliationsucceeded''} \<and>
   ce_Type (fst (Post example_post_env example_cdevents
                   (example_event\<lparr>Reason := ''Progressing''\<rparr>))) = IncidentDetectedEvent"
  using Post_payload [where env = example_post_env and s = example_cdevents
      and event = example_event]
    Post_payload [where env = example_post_env and s = example_cdevents
      and event = "example_event\<lparr>Reason := ''Progressing''\<rparr>"]
  by (simp add: example_event_def example_object_def example_post_env_def
      ascii_ToLower_examples)

subsection \<open>The webhook path\<close>

lemma hexdigit_inj:
  assumes "m < 16" and "n < 16" and "hexdigit m = hexdigit n"
  shows "m = n"
proof -
  have "distinct ''0123456789abcdef''" by simp
  moreover have "m < length ''0123456789abcdef''" "n < length ''0123456789abcdef''"
    using assms by simp_all
  ultimately show ?thesis
    using assms(3) unfolding hexdigit_def by (simp only: nth_eq_iff_index_eq)
qed

lemma hex_byte_inj:
  fixes b c :: byte
  assumes "[hexdigit (unat b div 16), hexdigit (unat b mod 16)] =
           [hexdigit (unat c div 16), hexdigit (unat c mod 16)]"
  shows "b = c"
proof -
  have lt: "unat b < 256" "unat c < 256"
    using unsigned_less [of b, where 'a = nat] unsigned_less [of c, where 'a = nat]
    by simp_all
  then have "unat b div 16 < 16" "unat c div 16 < 16" by simp_all
  with assms have d: "unat b div 16 = unat c div 16"
    by (auto intro: hexdigit_inj)
  from assms have m: "unat b mod 16 = unat c mod 16"
    by (auto intro: hexdigit_inj)
  have "unat b = 16 * (unat b div 16) + unat b mod 16" by simp
  also have "\<dots> = 16 * (unat c div 16) + unat c mod 16" using d m by simp
  also have "\<dots> = unat c" by simp
  finally show ?thesis by (simp add: word_unat_eq_iff)
qed

lemma hex_inj: "hex bs = hex cs \<Longrightarrow> bs = cs"
proof (induction bs arbitrary: cs)
  case Nil
  then show ?case by (cases cs) (simp_all add: hex_def)
next
  case (Cons b bs)
  then obtain c cs' where cs: "cs = c # cs'"
    by (cases cs) (simp_all add: hex_def)
  from Cons.prems cs have "b = c" and "hex bs = hex cs'"
    by (auto simp: hex_def intro: hex_byte_inj)
  with Cons.IH cs show ?case by simp
qed

lemma length_hex: "length (hex bs) = 2 * length bs"
  by (induction bs) (simp_all add: hex_def)

lemma hexdigit_lower: "n < 16 \<Longrightarrow> hexdigit n \<in> set ''0123456789abcdef''"
  unfolding hexdigit_def by (rule nth_mem) simp

lemma hex_lower: "set (hex bs) \<subseteq> set ''0123456789abcdef''"
proof -
  have "hexdigit (unat b div 16) \<in> set ''0123456789abcdef'' \<and>
        hexdigit (unat b mod 16) \<in> set ''0123456789abcdef''" for b :: byte
  proof -
    have "unat b < 256" using unsigned_less [of b, where 'a = nat] by simp
    then have "unat b div 16 < 16" "unat b mod 16 < 16" by simp_all
    then show ?thesis by (blast intro: hexdigit_lower)
  qed
  then show ?thesis unfolding hex_def by (induction bs) auto
qed

lemma length_sha256_round: "length st = 8 \<Longrightarrow> length (sha256_round st kw) = 8"
proof -
  assume "length st = 8"
  then obtain a b c d e f g h where "st = [a, b, c, d, e, f, g, h]"
    by (auto simp: length_Suc_conv eval_nat_numeral)
  then show ?thesis by (cases kw) (simp add: Let_def)
qed

lemma length_foldl_sha256_round:
  "length st = 8 \<Longrightarrow> length (foldl sha256_round st kws) = 8"
  by (induction kws arbitrary: st) (simp_all add: length_sha256_round)

lemma length_sha256_block: "length hs = 8 \<Longrightarrow> length (sha256_block hs chunk) = 8"
  by (simp add: sha256_block_def length_foldl_sha256_round)

lemma length_sha256_blocks: "length hs = 8 \<Longrightarrow> length (sha256_blocks n hs bs) = 8"
  by (induction n arbitrary: hs bs) (simp_all add: length_sha256_block)

lemma length_Sum256: "length (Sum256 msg) = 32"
proof -
  have "length (concat (map (\<lambda>w. map (g w) (rev [0..<4])) ws)) = 4 * length ws"
    for g :: "u32 \<Rightarrow> nat \<Rightarrow> byte" and ws
    by (induction ws) simp_all
  then show ?thesis
    by (simp add: Sum256_def length_sha256_blocks sha256_init_def)
qed

text \<open>
  The path of the receiver \<open>r1\<close> in namespace \<open>n1\<close> with token \<open>t\<close>: the SHA-256 digest
  of \<open>tr1n1\<close>.
\<close>

lemma GetWebhookPath_example:
  "GetWebhookPath \<lparr>rcv_Name = ''r1'', rcv_Namespace = ''n1''\<rparr> ''t'' =
     ''/hook/6db6f68010ae2098bcae0a33a4e19784f9b43aec06b9cece1e63790c73bd1849''"
  by code_simp

text \<open>
  The claim that two inputs which differ in a component have different paths fails: the
  three strings are concatenated with nothing between them, so moving a byte from the
  name to the token leaves the path as it is.
\<close>

theorem GetWebhookPath_collision_counterexample:
  "(''tr'', ''1'', ''n1'') \<noteq> (''t'', ''r1'', ''n1'') \<and>
   GetWebhookPath \<lparr>rcv_Name = ''1'', rcv_Namespace = ''n1''\<rparr> ''tr'' =
   GetWebhookPath \<lparr>rcv_Name = ''r1'', rcv_Namespace = ''n1''\<rparr> ''t''"
  by (simp add: GetWebhookPath_def GetName_def GetNamespace_def)

text \<open>
  Claim C4, amended. \<open>GetWebhookPath\<close> is a function of the token, the name and the
  namespace: the path is \<open>/hook/\<close> followed by the hex encoding, 64 characters out of
  \<open>0123456789abcdef\<close>, of the SHA-256 digest of the three strings concatenated. Two
  inputs have the same path exactly when the digests of their concatenations are equal,
  as they are whenever the concatenations are equal; so two paths differ only if the
  concatenations differ.
\<close>

theorem GetWebhookPath_digest:
  "GetWebhookPath r token =
     ''/hook/'' @ hex (Sum256 (bytes (token @ rcv_Name r @ rcv_Namespace r))) \<and>
   length (hex (Sum256 (bytes (token @ rcv_Name r @ rcv_Namespace r)))) = 64 \<and>
   set (hex (Sum256 (bytes (token @ rcv_Name r @ rcv_Namespace r))))
     \<subseteq> set ''0123456789abcdef'' \<and>
   (GetWebhookPath r token = GetWebhookPath r' token' \<longleftrightarrow>
      Sum256 (bytes (token @ rcv_Name r @ rcv_Namespace r)) =
      Sum256 (bytes (token' @ rcv_Name r' @ rcv_Namespace r'))) \<and>
   (token @ rcv_Name r @ rcv_Namespace r = token' @ rcv_Name r' @ rcv_Namespace r' \<longrightarrow>
      GetWebhookPath r token = GetWebhookPath r' token') \<and>
   (GetWebhookPath r token \<noteq> GetWebhookPath r' token' \<longrightarrow>
      token @ rcv_Name r @ rcv_Namespace r \<noteq> token' @ rcv_Name r' @ rcv_Namespace r')"
proof -
  have path: "GetWebhookPath r token =
     ''/hook/'' @ hex (Sum256 (bytes (token @ rcv_Name r @ rcv_Namespace r)))" for r token
    by (simp add: GetWebhookPath_def GetName_def GetNamespace_def ReceiverWebhookPath_def)
  have eq: "GetWebhookPath r token = GetWebhookPath r' token' \<longleftrightarrow>
      Sum256 (bytes (token @ rcv_Name r @ rcv_Namespace r)) =
      Sum256 (bytes (token' @ rcv_Name r' @ rcv_Namespace r'))"
    unfolding path using hex_inj by auto
  have len: "length (hex (Sum256 (bytes (token @ rcv_Name r @ rcv_Namespace r)))) = 64"
    by (simp add: length_hex length_Sum256)
  from path eq len hex_lower show ?thesis by metis
qed

theorem GetWebhookPath_digest_witness:
  "''tr'' @ rcv_Name \<lparr>rcv_Name = ''1'', rcv_Namespace = ''n1''\<rparr>
        @ rcv_Namespace \<lparr>rcv_Name = ''1'', rcv_Namespace = ''n1''\<rparr> =
   ''t'' @ rcv_Name \<lparr>rcv_Name = ''r1'', rcv_Namespace = ''n1''\<rparr>
        @ rcv_Namespace \<lparr>rcv_Name = ''r1'', rcv_Namespace = ''n1''\<rparr> \<and>
   GetWebhookPath \<lparr>rcv_Name = ''1'', rcv_Namespace = ''n1''\<rparr> ''tr'' =
   ''/hook/'' @ hex (Sum256 (bytes ''tr1n1'')) \<and>
   GetWebhookPath \<lparr>rcv_Name = ''1'', rcv_Namespace = ''n1''\<rparr> ''tr'' =
   GetWebhookPath \<lparr>rcv_Name = ''r1'', rcv_Namespace = ''n1''\<rparr> ''t''"
proof -
  have cat: "''tr'' @ rcv_Name \<lparr>rcv_Name = ''1'', rcv_Namespace = ''n1''\<rparr>
        @ rcv_Namespace \<lparr>rcv_Name = ''1'', rcv_Namespace = ''n1''\<rparr> =
      ''t'' @ rcv_Name \<lparr>rcv_Name = ''r1'', rcv_Namespace = ''n1''\<rparr>
        @ rcv_Namespace \<lparr>rcv_Name = ''r1'', rcv_Namespace = ''n1''\<rparr>"
    by simp
  note th = GetWebhookPath_digest [of "\<lparr>rcv_Name = ''1'', rcv_Namespace = ''n1''\<rparr>" "''tr''"
      "\<lparr>rcv_Name = ''r1'', rcv_Namespace = ''n1''\<rparr>" "''t''"]
  from th have p: "GetWebhookPath \<lparr>rcv_Name = ''1'', rcv_Namespace = ''n1''\<rparr> ''tr'' =
      ''/hook/'' @ hex (Sum256 (bytes ''tr1n1''))"
    by simp
  from th cat have q: "GetWebhookPath \<lparr>rcv_Name = ''1'', rcv_Namespace = ''n1''\<rparr> ''tr'' =
      GetWebhookPath \<lparr>rcv_Name = ''r1'', rcv_Namespace = ''n1''\<rparr> ''t''"
    by blast
  from cat p q show ?thesis by blast
qed

subsection \<open>Metadata clean-up\<close>

lemma HasPrefix_iff: "HasPrefix s pre \<longleftrightarrow> (\<exists>t. s = pre @ t)"
proof
  assume "HasPrefix s pre"
  then have "take (length pre) s = pre" by (simp add: HasPrefix_def)
  then have "s = pre @ drop (length pre) s" by (metis append_take_drop_id)
  then show "\<exists>t. s = pre @ t" ..
next
  assume "\<exists>t. s = pre @ t"
  then show "HasPrefix s pre" by (auto simp: HasPrefix_def)
qed

lemma HasPrefix_append [simp]: "HasPrefix (pre @ t) pre"
  by (simp add: HasPrefix_def)

lemma TrimPrefix_append [simp]: "TrimPrefix (pre @ t) pre = t"
  by (simp add: TrimPrefix_def)

lemma TrimPrefix_no_prefix: "\<not> HasPrefix s pre \<Longrightarrow> TrimPrefix s pre = s"
  by (simp add: TrimPrefix_def)

lemma TrimPrefix_eq_iff:
  "HasPrefix s pre \<Longrightarrow> TrimPrefix s pre = t \<longleftrightarrow> s = pre @ t"
  by (auto simp: HasPrefix_iff)

text \<open>
  The keys of the map that the loop returns: those it started with and the new keys of
  the entries it keeps.
\<close>

lemma cleanupMetadata_loop_dom:
  "k' \<in> dom (cleanupMetadata_loop EqualFold grp excl md keys meta) \<longleftrightarrow>
     k' \<in> dom meta \<or>
     (\<exists>k \<in> set keys. md k \<noteq> None \<and> HasPrefix k grp \<and> \<not> inList EqualFold excl k \<and>
        TrimPrefix k (grp @ ''/'') = k')"
  by (induction keys arbitrary: meta) (auto split: option.splits)

text \<open>When every visited key that starts with the group starts with the group and a slash.\<close>

lemma cleanupMetadata_loop_strip:
  assumes "\<forall>k \<in> set keys. md k \<noteq> None \<and> HasPrefix k grp \<longrightarrow> HasPrefix k (grp @ ''/'')"
  shows "cleanupMetadata_loop EqualFold grp excl md keys meta k' =
     (if grp @ ''/'' @ k' \<in> set keys \<and> md (grp @ ''/'' @ k') \<noteq> None \<and>
         \<not> inList EqualFold excl (grp @ ''/'' @ k')
      then md (grp @ ''/'' @ k') else meta k')"
  using assms
proof (induction keys arbitrary: meta)
  case Nil
  then show ?case by simp
next
  case (Cons key keys)
  then have IH: "cleanupMetadata_loop EqualFold grp excl md keys m k' =
     (if grp @ ''/'' @ k' \<in> set keys \<and> md (grp @ ''/'' @ k') \<noteq> None \<and>
         \<not> inList EqualFold excl (grp @ ''/'' @ k')
      then md (grp @ ''/'' @ k') else m k')" for m
    by simp
  have pre: "HasPrefix (grp @ ''/'' @ k') grp" by simp
  show ?case
  proof (cases "md key")
    case None
    then show ?thesis using IH by auto
  next
    case (Some val)
    show ?thesis
    proof (cases "HasPrefix key grp \<and> \<not> inList EqualFold excl key")
      case True
      with Some Cons.prems have "HasPrefix key (grp @ ''/'')" by simp
      then have "TrimPrefix key (grp @ ''/'') = k' \<longleftrightarrow> key = grp @ ''/'' @ k'"
        by (simp add: TrimPrefix_eq_iff)
      with True Some IH show ?thesis by auto
    next
      case False
      with pre have ne: "key = grp @ ''/'' @ k' \<longrightarrow> inList EqualFold excl (grp @ ''/'' @ k')"
        by auto
      from False Some
      have step: "cleanupMetadata_loop EqualFold grp excl md (key # keys) meta k' =
          cleanupMetadata_loop EqualFold grp excl md keys meta k'"
        by auto
      show ?thesis unfolding step IH using ne by auto
    qed
  qed
qed

text \<open>When no visited key that is kept starts with the group and a slash.\<close>

lemma cleanupMetadata_loop_keep:
  assumes "\<forall>k \<in> set keys. md k \<noteq> None \<and> HasPrefix k grp \<and> \<not> inList EqualFold excl k
             \<longrightarrow> \<not> HasPrefix k (grp @ ''/'')"
  shows "cleanupMetadata_loop EqualFold grp excl md keys meta k' =
     (if k' \<in> set keys \<and> md k' \<noteq> None \<and> HasPrefix k' grp \<and> \<not> inList EqualFold excl k'
      then md k' else meta k')"
  using assms
proof (induction keys arbitrary: meta)
  case Nil
  then show ?case by simp
next
  case (Cons key keys)
  then have IH: "cleanupMetadata_loop EqualFold grp excl md keys m k' =
     (if k' \<in> set keys \<and> md k' \<noteq> None \<and> HasPrefix k' grp \<and> \<not> inList EqualFold excl k'
      then md k' else m k')" for m
    by simp
  show ?case
  proof (cases "md key")
    case None
    then show ?thesis using IH by auto
  next
    case (Some val)
    show ?thesis
    proof (cases "HasPrefix key grp \<and> \<not> inList EqualFold excl key")
      case True
      with Some Cons.prems have "TrimPrefix key (grp @ ''/'') = key"
        by (simp add: TrimPrefix_no_prefix)
      with True Some IH show ?thesis by auto
    next
      case False
      with Some IH show ?thesis by auto
    qed
  qed
qed

lemma cleanupMetadata_unfold:
  "cleanupMetadata EqualFold keys event =
     event\<lparr>Metadata := Some (case Metadata event of
        None \<Rightarrow> Map.empty
      | Some md \<Rightarrow>
          cleanupMetadata_loop EqualFold (Group (GetGroupVersionKind (InvolvedObject event)))
            [Group (GetGroupVersionKind (InvolvedObject event)) @ ''/checksum''] md keys
            Map.empty)\<rparr>"
  by (simp add: cleanupMetadata_def MetaChecksumKey_def Let_def)

lemma example_group:
  "Group (GetGroupVersionKind (InvolvedObject example_event)) = ''helm.toolkit.fluxcd.io''"
  by (simp add: example_event_def example_object_def GetGroupVersionKind_def
      FromAPIVersionAndKind_def ParseGroupVersion_def)

lemma ascii_EqualFold_examples:
  "ascii_EqualFold ''helm.toolkit.fluxcd.io/checksum'' ''helm.toolkit.fluxcd.io/Checksum''"
  "ascii_EqualFold ''helm.toolkit.fluxcd.io/checksum'' ''helm.toolkit.fluxcd.io/checksum''"
  "\<not> ascii_EqualFold ''helm.toolkit.fluxcd.io/checksum'' ''helm.toolkit.fluxcd.io/revision''"
  "\<not> ascii_EqualFold ''helm.toolkit.fluxcd.io/checksum'' ''helm.toolkit.fluxcd.io.extra/x''"
  "\<not> ascii_EqualFold ''helm.toolkit.fluxcd.io/checksum''
       ''helm.toolkit.fluxcd.io/helm.toolkit.fluxcd.io/x''"
  by (simp_all add: ascii_EqualFold_def ascii_ToLower_def lower_byte_def char_of_def bit_0)

text \<open>
  The claim that exactly the entries whose key starts with \<open>G/\<close> and differs from
  \<open>G/checksum\<close> are kept fails in two ways. The excluded key is compared with
  \<open>strings.EqualFold\<close>, so \<open>G/Checksum\<close> is dropped too. And the loop tests the prefix
  \<open>G\<close>, without the slash, so a key that goes on after \<open>G\<close> with something else is
  kept, as it is.
\<close>

theorem cleanupMetadata_counterexample:
  "Group (GetGroupVersionKind (InvolvedObject example_event)) = ''helm.toolkit.fluxcd.io'' \<and>
   HasPrefix ''helm.toolkit.fluxcd.io/Checksum'' ''helm.toolkit.fluxcd.io/'' \<and>
   ''helm.toolkit.fluxcd.io/Checksum'' \<noteq> ''helm.toolkit.fluxcd.io/checksum'' \<and>
   Metadata (cleanupMetadata ascii_EqualFold [''helm.toolkit.fluxcd.io/Checksum'']
     (example_event\<lparr>Metadata := Some [''helm.toolkit.fluxcd.io/Checksum'' \<mapsto> ''abc'']\<rparr>))
     = Some Map.empty \<and>
   \<not> HasPrefix ''helm.toolkit.fluxcd.io.extra/x'' ''helm.toolkit.fluxcd.io/'' \<and>
   Metadata (cleanupMetadata ascii_EqualFold [''helm.toolkit.fluxcd.io.extra/x'']
     (example_event\<lparr>Metadata := Some [''helm.toolkit.fluxcd.io.extra/x'' \<mapsto> ''y'']\<rparr>))
     = Some [''helm.toolkit.fluxcd.io.extra/x'' \<mapsto> ''y'']"
  using example_group
  by (simp add: cleanupMetadata_unfold ascii_EqualFold_examples HasPrefix_def TrimPrefix_def)

text \<open>
  Claim C5, amended. Let \<open>G\<close> be the group of the involved object and let every key of
  the metadata that starts with \<open>G\<close> start with \<open>G/\<close>. Then \<open>cleanupMetadata\<close>
  replaces the metadata by exactly those entries whose key starts with \<open>G/\<close> and is not
  equal to \<open>G/checksum\<close> under \<open>strings.EqualFold\<close>, that is, when case is ignored,
  with the \<open>G/\<close> stripped from each kept key; every other entry is removed, and nothing
  else of the event changes.
\<close>

theorem cleanupMetadata_filters:
  fixes EqualFold :: "string \<Rightarrow> string \<Rightarrow> bool"
    and event :: Event and keys :: "string list"
  defines "G \<equiv> Group (GetGroupVersionKind (InvolvedObject event))"
  assumes order: "range_order (Metadata event) keys"
    and slash: "\<forall>md k. Metadata event = Some md \<and> k \<in> dom md \<and> HasPrefix k G
                  \<longrightarrow> HasPrefix k (G @ ''/'')"
  shows "cleanupMetadata EqualFold keys event =
     event\<lparr>Metadata := Some (\<lambda>k'. case Metadata event of
        None \<Rightarrow> None
      | Some md \<Rightarrow>
          if EqualFold (G @ ''/checksum'') (G @ ''/'' @ k') then None
          else md (G @ ''/'' @ k'))\<rparr>"
proof (cases "Metadata event")
  case None
  then show ?thesis by (simp add: cleanupMetadata_unfold)
next
  case (Some md)
  with order have keys: "set keys = dom md" by (simp add: range_order_def)
  from Some slash keys
  have "\<forall>k \<in> set keys. md k \<noteq> None \<and> HasPrefix k G \<longrightarrow> HasPrefix k (G @ ''/'')"
    by auto
  then have "cleanupMetadata_loop EqualFold G [G @ ''/checksum''] md keys Map.empty k' =
     (if EqualFold (G @ ''/checksum'') (G @ ''/'' @ k') then None else md (G @ ''/'' @ k'))"
    for k'
    using keys by (subst cleanupMetadata_loop_strip) (auto simp: domIff)
  then have "cleanupMetadata_loop EqualFold G [G @ ''/checksum''] md keys Map.empty =
     (\<lambda>k'. if EqualFold (G @ ''/checksum'') (G @ ''/'' @ k') then None else md (G @ ''/'' @ k'))"
    by (rule ext)
  with Some show ?thesis by (simp add: cleanupMetadata_unfold G_def)
qed

lemma example_cleanup:
  "cleanupMetadata ascii_EqualFold
     [''other/x'', ''helm.toolkit.fluxcd.io/checksum'', ''helm.toolkit.fluxcd.io/revision'']
     example_event = example_event\<lparr>Metadata := Some [''revision'' \<mapsto> ''1.0'']\<rparr>"
  using example_group
  by (simp add: cleanupMetadata_unfold ascii_EqualFold_examples HasPrefix_def TrimPrefix_def
      example_event_def)

theorem cleanupMetadata_filters_witness:
  "range_order (Metadata example_event)
     [''other/x'', ''helm.toolkit.fluxcd.io/checksum'', ''helm.toolkit.fluxcd.io/revision''] \<and>
   filter (\<lambda>k. HasPrefix k ''helm.toolkit.fluxcd.io'' \<and> \<not> HasPrefix k ''helm.toolkit.fluxcd.io/'')
     [''other/x'', ''helm.toolkit.fluxcd.io/checksum'', ''helm.toolkit.fluxcd.io/revision''] = [] \<and>
   cleanupMetadata ascii_EqualFold
     [''other/x'', ''helm.toolkit.fluxcd.io/checksum'', ''helm.toolkit.fluxcd.io/revision'']
     example_event = example_event\<lparr>Metadata := Some [''revision'' \<mapsto> ''1.0'']\<rparr> \<and>
   cleanupMetadata ascii_EqualFold
     [''other/x'', ''helm.toolkit.fluxcd.io/checksum'', ''helm.toolkit.fluxcd.io/revision'']
     example_event =
     example_event\<lparr>Metadata := Some (\<lambda>k'. case Metadata example_event of
        None \<Rightarrow> None
      | Some md \<Rightarrow>
          if ascii_EqualFold (''helm.toolkit.fluxcd.io'' @ ''/checksum'')
               (''helm.toolkit.fluxcd.io'' @ ''/'' @ k') then None
          else md (''helm.toolkit.fluxcd.io'' @ ''/'' @ k'))\<rparr>"
proof -
  have a: "range_order (Metadata example_event)
     [''other/x'', ''helm.toolkit.fluxcd.io/checksum'', ''helm.toolkit.fluxcd.io/revision'']"
    by (auto simp: range_order_def example_event_def)
  have b: "\<forall>md k. Metadata example_event = Some md \<and> k \<in> dom md \<and>
        HasPrefix k (Group (GetGroupVersionKind (InvolvedObject example_event)))
      \<longrightarrow> HasPrefix k (Group (GetGroupVersionKind (InvolvedObject example_event)) @ ''/'')"
    unfolding example_group by (auto simp: example_event_def HasPrefix_def)
  have c: "filter (\<lambda>k. HasPrefix k ''helm.toolkit.fluxcd.io'' \<and>
        \<not> HasPrefix k ''helm.toolkit.fluxcd.io/'')
     [''other/x'', ''helm.toolkit.fluxcd.io/checksum'', ''helm.toolkit.fluxcd.io/revision''] = []"
    by (simp add: HasPrefix_def)
  from cleanupMetadata_filters [OF a b] example_cleanup a c show ?thesis
    unfolding example_group by simp
qed

text \<open>
  The claim that \<open>cleanupMetadata\<close> is idempotent and that no key of its result starts
  with the group fails. The first application strips \<open>G/\<close> from the key \<open>G/revision\<close>;
  the second finds a key \<open>revision\<close> that does not start with \<open>G\<close> and removes it.
  And the first application strips one \<open>G/\<close> only, so the key \<open>G/G/x\<close> becomes
  \<open>G/x\<close>.
\<close>

theorem cleanupMetadata_twice_counterexample:
  "Metadata (cleanupMetadata ascii_EqualFold
      [''other/x'', ''helm.toolkit.fluxcd.io/checksum'', ''helm.toolkit.fluxcd.io/revision'']
      example_event) = Some [''revision'' \<mapsto> ''1.0''] \<and>
   Metadata (cleanupMetadata ascii_EqualFold [''revision''] (cleanupMetadata ascii_EqualFold
      [''other/x'', ''helm.toolkit.fluxcd.io/checksum'', ''helm.toolkit.fluxcd.io/revision'']
      example_event)) = Some Map.empty \<and>
   [''revision'' \<mapsto> ''1.0''] \<noteq> Map.empty \<and>
   Metadata (cleanupMetadata ascii_EqualFold [''helm.toolkit.fluxcd.io/helm.toolkit.fluxcd.io/x'']
     (example_event\<lparr>Metadata :=
        Some [''helm.toolkit.fluxcd.io/helm.toolkit.fluxcd.io/x'' \<mapsto> ''y'']\<rparr>))
     = Some [''helm.toolkit.fluxcd.io/x'' \<mapsto> ''y''] \<and>
   HasPrefix ''helm.toolkit.fluxcd.io/x''
     (Group (GetGroupVersionKind (InvolvedObject example_event)) @ ''/'')"
proof -
  have g: "Group (GetGroupVersionKind (InvolvedObject
      (example_event\<lparr>Metadata := Some [''revision'' \<mapsto> ''1.0'']\<rparr>))) = ''helm.toolkit.fluxcd.io''"
    using example_group by simp
  have "Metadata (cleanupMetadata ascii_EqualFold [''revision'']
      (example_event\<lparr>Metadata := Some [''revision'' \<mapsto> ''1.0'']\<rparr>)) = Some Map.empty"
    unfolding cleanupMetadata_unfold g by (simp add: HasPrefix_def)
  moreover have "Metadata (cleanupMetadata ascii_EqualFold [''helm.toolkit.fluxcd.io/helm.toolkit.fluxcd.io/x'']
     (example_event\<lparr>Metadata :=
        Some [''helm.toolkit.fluxcd.io/helm.toolkit.fluxcd.io/x'' \<mapsto> ''y'']\<rparr>))
     = Some [''helm.toolkit.fluxcd.io/x'' \<mapsto> ''y'']"
    using example_group
    by (simp add: cleanupMetadata_unfold ascii_EqualFold_examples HasPrefix_def TrimPrefix_def)
  ultimately show ?thesis
    unfolding example_cleanup example_group by (simp add: HasPrefix_def)
qed

lemma Metadata_update_eq: "e\<lparr>Metadata := x\<rparr> = e\<lparr>Metadata := y\<rparr> \<longleftrightarrow> x = y"
  by (cases e) auto

text \<open>
  Claim C6, amended. Let \<open>G\<close> be the group of the involved object, and let every key of
  the result of \<open>cleanupMetadata\<close> that starts with \<open>G\<close> start with \<open>G/\<close>. Then a
  second application keeps exactly the entries of that result whose key starts with
  \<open>G/\<close> and is not equal to \<open>G/checksum\<close> under \<open>strings.EqualFold\<close>, with the \<open>G/\<close>
  stripped once more, and removes every other entry; so it leaves the result unchanged
  exactly when the result is empty, and \<open>cleanupMetadata\<close> is not idempotent. A key
  \<open>k\<close> of the first result starts with \<open>G/\<close> only if the metadata of the event had the
  key \<open>G/k\<close>.
\<close>

theorem cleanupMetadata_twice:
  fixes EqualFold :: "string \<Rightarrow> string \<Rightarrow> bool"
    and event :: Event and keys keys' :: "string list"
  defines "G \<equiv> Group (GetGroupVersionKind (InvolvedObject event))"
  assumes order: "range_order (Metadata (cleanupMetadata EqualFold keys event)) keys'"
    and slash: "\<forall>m k. Metadata (cleanupMetadata EqualFold keys event) = Some m \<and>
                  k \<in> dom m \<and> HasPrefix k G \<longrightarrow> HasPrefix k (G @ ''/'')"
  shows "(\<exists>m. Metadata (cleanupMetadata EqualFold keys event) = Some m \<and>
            cleanupMetadata EqualFold keys' (cleanupMetadata EqualFold keys event) =
              (cleanupMetadata EqualFold keys event)\<lparr>Metadata := Some (\<lambda>k'.
                 if EqualFold (G @ ''/checksum'') (G @ ''/'' @ k') then None
                 else m (G @ ''/'' @ k'))\<rparr>) \<and>
         (cleanupMetadata EqualFold keys' (cleanupMetadata EqualFold keys event) =
            cleanupMetadata EqualFold keys event
          \<longleftrightarrow> Metadata (cleanupMetadata EqualFold keys event) = Some Map.empty) \<and>
         (\<forall>m md k. Metadata (cleanupMetadata EqualFold keys event) = Some m \<and>
              Metadata event = Some md \<and> k \<in> dom m \<and> HasPrefix k (G @ ''/'')
            \<longrightarrow> G @ ''/'' @ k \<in> dom md)"
proof -
  define excl where "excl = [G @ ''/checksum'']"
  define m1 where "m1 = (case Metadata event of
        None \<Rightarrow> Map.empty
      | Some md \<Rightarrow> cleanupMetadata_loop EqualFold G excl md keys Map.empty)"
  define m2 where "m2 = cleanupMetadata_loop EqualFold G excl m1 keys' Map.empty"
  have once: "cleanupMetadata EqualFold keys event = event\<lparr>Metadata := Some m1\<rparr>"
    unfolding cleanupMetadata_unfold m1_def excl_def G_def ..
  have twice: "cleanupMetadata EqualFold keys' (event\<lparr>Metadata := Some m1\<rparr>) =
      event\<lparr>Metadata := Some m2\<rparr>"
    unfolding cleanupMetadata_unfold m2_def excl_def G_def by simp
  have same: "cleanupMetadata EqualFold keys' (cleanupMetadata EqualFold keys event) =
      cleanupMetadata EqualFold keys event \<longleftrightarrow> m2 = m1"
    unfolding once twice by (simp add: Metadata_update_eq)
  have sel: "Metadata (cleanupMetadata EqualFold keys event) = Some m \<longleftrightarrow> m = m1" for m
    unfolding once by auto
  from order have keys': "set keys' = dom m1"
    by (simp add: once range_order_def)
  from slash have "\<forall>k. k \<in> dom m1 \<and> HasPrefix k G \<longrightarrow> HasPrefix k (G @ ''/'')"
    by (simp add: sel)
  with keys'
  have ns: "\<forall>k \<in> set keys'. m1 k \<noteq> None \<and> HasPrefix k G \<longrightarrow> HasPrefix k (G @ ''/'')"
    by auto
  text \<open>The second application filters and strips once more.\<close>
  have again: "m2 k' = (if EqualFold (G @ ''/checksum'') (G @ ''/'' @ k') then None
                        else m1 (G @ ''/'' @ k'))" for k'
    unfolding m2_def using ns keys'
    by (subst cleanupMetadata_loop_strip) (auto simp: excl_def domIff)
  text \<open>Where a key of the result starts with the group and a slash.\<close>
  have origin: "\<exists>md. Metadata event = Some md \<and> G @ ''/'' @ k \<in> dom md"
    if k: "k \<in> dom m1" and pre: "HasPrefix k (G @ ''/'')" for k
  proof -
    from k obtain md where md: "Metadata event = Some md"
      by (cases "Metadata event") (auto simp: m1_def)
    with k have "k \<in> dom (cleanupMetadata_loop EqualFold G excl md keys Map.empty)"
      by (simp add: m1_def)
    then obtain k0 where k0: "md k0 \<noteq> None" "HasPrefix k0 G"
        "TrimPrefix k0 (G @ ''/'') = k"
      by (auto simp: cleanupMetadata_loop_dom)
    have "HasPrefix k0 (G @ ''/'')"
    proof (rule ccontr)
      assume "\<not> HasPrefix k0 (G @ ''/'')"
      with k0(3) have "k0 = k" by (simp add: TrimPrefix_no_prefix)
      with pre \<open>\<not> HasPrefix k0 (G @ ''/'')\<close> show False by simp
    qed
    with k0(3) have "k0 = G @ ''/'' @ k" by (simp add: TrimPrefix_eq_iff)
    with k0(1) md show ?thesis by (auto simp: domIff)
  qed
  text \<open>Only the empty map is left as it is: a longest key would need a longer one.\<close>
  have fixed: "m2 = m1 \<longleftrightarrow> m1 = Map.empty"
  proof
    assume eq: "m2 = m1"
    show "m1 = Map.empty"
    proof (rule ccontr)
      assume "m1 \<noteq> Map.empty"
      then have ne: "dom m1 \<noteq> {}" by simp
      have fin: "finite (dom m1)" by (simp flip: keys')
      from fin ne have "Max (length ` dom m1) \<in> length ` dom m1" by (intro Max_in) auto
      then obtain k1 where k1: "Max (length ` dom m1) = length k1" "k1 \<in> dom m1"
        by (rule imageE)
      from k1(2) eq have "m2 k1 \<noteq> None" by (simp add: domIff)
      then have "m1 (G @ ''/'' @ k1) \<noteq> None" by (simp add: again split: if_splits)
      then have "G @ ''/'' @ k1 \<in> dom m1" by (simp add: domIff)
      then have "length (G @ ''/'' @ k1) \<in> length ` dom m1" by (rule imageI)
      with fin have "length (G @ ''/'' @ k1) \<le> Max (length ` dom m1)"
        by (intro Max_ge) simp_all
      with k1(1) show False by simp
    qed
  next
    assume "m1 = Map.empty"
    then have "m2 k' = m1 k'" for k' by (simp add: again)
    then show "m2 = m1" by (rule ext)
  qed
  have m2_fun: "m2 = (\<lambda>k'. if EqualFold (G @ ''/checksum'') (G @ ''/'' @ k') then None
                        else m1 (G @ ''/'' @ k'))"
    by (rule ext) (rule again)
  have part0: "\<exists>m. Metadata (cleanupMetadata EqualFold keys event) = Some m \<and>
            cleanupMetadata EqualFold keys' (cleanupMetadata EqualFold keys event) =
              (cleanupMetadata EqualFold keys event)\<lparr>Metadata := Some (\<lambda>k'.
                 if EqualFold (G @ ''/checksum'') (G @ ''/'' @ k') then None
                 else m (G @ ''/'' @ k'))\<rparr>"
  proof (intro exI conjI)
    show "Metadata (cleanupMetadata EqualFold keys event) = Some m1" by (simp add: sel)
    show "cleanupMetadata EqualFold keys' (cleanupMetadata EqualFold keys event) =
              (cleanupMetadata EqualFold keys event)\<lparr>Metadata := Some (\<lambda>k'.
                 if EqualFold (G @ ''/checksum'') (G @ ''/'' @ k') then None
                 else m1 (G @ ''/'' @ k'))\<rparr>"
      unfolding once twice m2_fun by simp
  qed
  have part1: "cleanupMetadata EqualFold keys' (cleanupMetadata EqualFold keys event) =
            cleanupMetadata EqualFold keys event
          \<longleftrightarrow> Metadata (cleanupMetadata EqualFold keys event) = Some Map.empty"
    unfolding same fixed sel by blast
  have part2: "\<forall>m md k. Metadata (cleanupMetadata EqualFold keys event) = Some m \<and>
        Metadata event = Some md \<and> k \<in> dom m \<and> HasPrefix k (G @ ''/'')
      \<longrightarrow> G @ ''/'' @ k \<in> dom md"
  proof (intro allI impI)
    fix m md k
    assume a: "Metadata (cleanupMetadata EqualFold keys event) = Some m \<and>
        Metadata event = Some md \<and> k \<in> dom m \<and> HasPrefix k (G @ ''/'')"
    then have "k \<in> dom m1" by (auto simp: sel)
    with a origin [of k] show "G @ ''/'' @ k \<in> dom md" by auto
  qed
  from part0 part1 part2 show ?thesis by (intro conjI)
qed

lemma example_cleanup_nested:
  "cleanupMetadata ascii_EqualFold [''helm.toolkit.fluxcd.io/helm.toolkit.fluxcd.io/x'']
     (example_event\<lparr>Metadata :=
        Some [''helm.toolkit.fluxcd.io/helm.toolkit.fluxcd.io/x'' \<mapsto> ''y'']\<rparr>) =
   example_event\<lparr>Metadata := Some [''helm.toolkit.fluxcd.io/x'' \<mapsto> ''y'']\<rparr>"
  using example_group
  by (simp add: cleanupMetadata_unfold ascii_EqualFold_examples HasPrefix_def TrimPrefix_def)

theorem cleanupMetadata_twice_witness:
  "range_order
     (Metadata (cleanupMetadata ascii_EqualFold
        [''helm.toolkit.fluxcd.io/helm.toolkit.fluxcd.io/x'']
        (example_event\<lparr>Metadata :=
           Some [''helm.toolkit.fluxcd.io/helm.toolkit.fluxcd.io/x'' \<mapsto> ''y'']\<rparr>)))
     [''helm.toolkit.fluxcd.io/x''] \<and>
   Metadata (cleanupMetadata ascii_EqualFold
        [''helm.toolkit.fluxcd.io/helm.toolkit.fluxcd.io/x'']
        (example_event\<lparr>Metadata :=
           Some [''helm.toolkit.fluxcd.io/helm.toolkit.fluxcd.io/x'' \<mapsto> ''y'']\<rparr>))
     = Some [''helm.toolkit.fluxcd.io/x'' \<mapsto> ''y''] \<and>
   ''helm.toolkit.fluxcd.io/x'' \<in> dom [''helm.toolkit.fluxcd.io/x'' \<mapsto> ''y''] \<and>
   HasPrefix ''helm.toolkit.fluxcd.io/x'' (''helm.toolkit.fluxcd.io'' @ ''/'') \<and>
   cleanupMetadata ascii_EqualFold [''helm.toolkit.fluxcd.io/x'']
     (cleanupMetadata ascii_EqualFold [''helm.toolkit.fluxcd.io/helm.toolkit.fluxcd.io/x'']
        (example_event\<lparr>Metadata :=
           Some [''helm.toolkit.fluxcd.io/helm.toolkit.fluxcd.io/x'' \<mapsto> ''y'']\<rparr>)) \<noteq>
   cleanupMetadata ascii_EqualFold [''helm.toolkit.fluxcd.io/helm.toolkit.fluxcd.io/x'']
     (example_event\<lparr>Metadata :=
        Some [''helm.toolkit.fluxcd.io/helm.toolkit.fluxcd.io/x'' \<mapsto> ''y'']\<rparr>) \<and>
   ''helm.toolkit.fluxcd.io'' @ ''/'' @ ''helm.toolkit.fluxcd.io/x''
     \<in> dom [''helm.toolkit.fluxcd.io/helm.toolkit.fluxcd.io/x'' \<mapsto> ''y'']"
proof -
  let ?ev = "example_event\<lparr>Metadata :=
     Some [''helm.toolkit.fluxcd.io/helm.toolkit.fluxcd.io/x'' \<mapsto> ''y'']\<rparr>"
  let ?once = "cleanupMetadata ascii_EqualFold
     [''helm.toolkit.fluxcd.io/helm.toolkit.fluxcd.io/x''] ?ev"
  have m: "Metadata ?once = Some [''helm.toolkit.fluxcd.io/x'' \<mapsto> ''y'']"
    unfolding example_cleanup_nested by simp
  have r: "range_order (Metadata ?once) [''helm.toolkit.fluxcd.io/x'']"
    unfolding m by (simp add: range_order_def)
  have g: "Group (GetGroupVersionKind (InvolvedObject ?ev)) = ''helm.toolkit.fluxcd.io''"
    using example_group by simp
  have p: "HasPrefix ''helm.toolkit.fluxcd.io/x'' (''helm.toolkit.fluxcd.io'' @ ''/'')"
    by (simp add: HasPrefix_def)
  have d: "''helm.toolkit.fluxcd.io/x'' \<in> dom [''helm.toolkit.fluxcd.io/x'' \<mapsto> ''y'']"
    by simp
  have s: "\<forall>m k. Metadata ?once = Some m \<and> k \<in> dom m \<and>
      HasPrefix k (Group (GetGroupVersionKind (InvolvedObject ?ev)))
        \<longrightarrow> HasPrefix k (Group (GetGroupVersionKind (InvolvedObject ?ev)) @ ''/'')"
    unfolding m g using p by auto
  have nonempty: "Some [''helm.toolkit.fluxcd.io/x'' \<mapsto> ''y''] \<noteq> Some Map.empty"
    by simp
  note th = cleanupMetadata_twice [OF r s, unfolded g]
  from th [THEN conjunct2, THEN conjunct1] m nonempty
  have ne: "cleanupMetadata ascii_EqualFold [''helm.toolkit.fluxcd.io/x''] ?once \<noteq> ?once"
    by simp
  have "''helm.toolkit.fluxcd.io'' @ ''/'' @ ''helm.toolkit.fluxcd.io/x''
     \<in> dom [''helm.toolkit.fluxcd.io/helm.toolkit.fluxcd.io/x'' \<mapsto> ''y'']"
    by simp
  with r m d p ne show ?thesis by blast
qed

end
